theory Spec2Isabelle
  imports Main "HOL-Library.Word"
begin

section \<open>Go values as seen through reflection\<close>

text \<open>
  The decoder of package \<open>httpio\<close> walks its destination with Go's \<open>reflect\<close> package.
  The embedding keeps what the walker can observe: the kind of every value, the struct
  fields with their tags, nil and non-nil pointers.  A pointer owns its pointee (the
  destination is a tree; two pointers never share a target).
\<close>

text \<open>\<open>reflect.Kind\<close>, in the order of the Go declaration (\<open>KInt\<close> is \<open>reflect.Int\<close>).\<close>

datatype kind =
    KInvalid | KBool | KInt | KInt8 | KInt16 | KInt32 | KInt64
  | KUint | KUint8 | KUint16 | KUint32 | KUint64 | KUintptr
  | KFloat32 | KFloat64 | KComplex64 | KComplex128
  | KArray | KChan | KFunc | KInterface | KMap | KPointer | KSlice | KString | KStruct
  | KUnsafePointer

datatype intKind = SInt | SInt8 | SInt16 | SInt32 | SInt64

datatype uintKind = UInt | UInt8 | UInt16 | UInt32 | UInt64

datatype floatKind = F32 | F64

text \<open>The kinds whose contents the walker never looks into.\<close>

datatype otherKind =
    OUintptr | OComplex64 | OComplex128 | OArray | OChan | OFunc | OInterface | OMap
  | OSlice | OUnsafePointer

text \<open>A float64 is its IEEE bit pattern; its arithmetic is not modelled.\<close>

type_synonym float64 = "64 word"

text \<open>
  A struct tag in the conventional format, already split into its key/value pairs, in
  the order they are written: \<open>`query:"a" json:"b"`\<close> is \<open>[(''query'', ''a''), (''json'', ''b'')]\<close>.
\<close>

type_synonym structTag = "(string \<times> string) list"

text \<open>
  \<open>reflect.StructField\<close>: the field's name, its package path (empty exactly for an
  exported field), its tag, whether it is an embedded field, and its type (in a struct
  type) or its value (in a struct value).
\<close>

datatype 'a structField =
  StructField (Name: string) (PkgPath: string) (Tag: structTag) (Anonymous: bool) (Content: 'a)

datatype gtype =
    TBool | TInt intKind | TUint uintKind | TFloat floatKind | TString
  | TPtr gtype | TStruct "gtype structField list" | TOther otherKind

text \<open>
  A value carries what is needed to know its type: a nil pointer its element type, a
  struct its field descriptors.  The contents of a value of one of the other kinds are
  opaque (a string stands for them).
\<close>

datatype gval =
    VBool bool | VInt intKind int | VUint uintKind int | VFloat floatKind float64
  | VString string
  | VNil gtype | VRef gval
  | VStruct "gval structField list"
  | VOther otherKind string

fun kindOfInt :: "intKind \<Rightarrow> kind" where
  "kindOfInt SInt = KInt"
| "kindOfInt SInt8 = KInt8"
| "kindOfInt SInt16 = KInt16"
| "kindOfInt SInt32 = KInt32"
| "kindOfInt SInt64 = KInt64"

fun kindOfUint :: "uintKind \<Rightarrow> kind" where
  "kindOfUint UInt = KUint"
| "kindOfUint UInt8 = KUint8"
| "kindOfUint UInt16 = KUint16"
| "kindOfUint UInt32 = KUint32"
| "kindOfUint UInt64 = KUint64"

fun kindOfFloat :: "floatKind \<Rightarrow> kind" where
  "kindOfFloat F32 = KFloat32"
| "kindOfFloat F64 = KFloat64"

fun kindOfOther :: "otherKind \<Rightarrow> kind" where
  "kindOfOther OUintptr = KUintptr"
| "kindOfOther OComplex64 = KComplex64"
| "kindOfOther OComplex128 = KComplex128"
| "kindOfOther OArray = KArray"
| "kindOfOther OChan = KChan"
| "kindOfOther OFunc = KFunc"
| "kindOfOther OInterface = KInterface"
| "kindOfOther OMap = KMap"
| "kindOfOther OSlice = KSlice"
| "kindOfOther OUnsafePointer = KUnsafePointer"

text \<open>\<open>v.Kind()\<close>.\<close>

fun kindOf :: "gval \<Rightarrow> kind" where
  "kindOf (VBool _) = KBool"
| "kindOf (VInt k _) = kindOfInt k"
| "kindOf (VUint k _) = kindOfUint k"
| "kindOf (VFloat k _) = kindOfFloat k"
| "kindOf (VString _) = KString"
| "kindOf (VNil _) = KPointer"
| "kindOf (VRef _) = KPointer"
| "kindOf (VStruct _) = KStruct"
| "kindOf (VOther k _) = kindOfOther k"

text \<open>The zero value of a type, which \<open>reflect.New(t)\<close> points to.\<close>

primrec zero :: "gtype \<Rightarrow> gval" where
  "zero TBool = VBool False"
| "zero (TInt k) = VInt k 0"
| "zero (TUint k) = VUint k 0"
| "zero (TFloat k) = VFloat k 0"
| "zero TString = VString []"
| "zero (TPtr t) = VNil t"
| "zero (TStruct fs) = VStruct (map (map_structField zero) fs)"
| "zero (TOther k) = VOther k []"

text \<open>
  The widths of the integer kinds.  \<open>int\<close> and \<open>uint\<close> are taken at 64 bits
  (\<open>strconv.IntSize\<close> on a 64-bit platform).
\<close>

fun intBits :: "intKind \<Rightarrow> nat" where
  "intBits SInt = 64"
| "intBits SInt8 = 8"
| "intBits SInt16 = 16"
| "intBits SInt32 = 32"
| "intBits SInt64 = 64"

fun uintBits :: "uintKind \<Rightarrow> nat" where
  "uintBits UInt = 64"
| "uintBits UInt8 = 8"
| "uintBits UInt16 = 16"
| "uintBits UInt32 = 32"
| "uintBits UInt64 = 64"

section \<open>Errors\<close>

text \<open>\<open>strconv.ErrSyntax\<close> and \<open>strconv.ErrRange\<close>.\<close>

datatype numErr = ErrSyntax | ErrRange

text \<open>
  The errors \<open>Unmarshal\<close> can return: \<open>"destination must be a non-nil pointer"\<close>, the
  error of the JSON decoder, \<open>"unsupported type: <kind>"\<close>, a \<open>*strconv.NumError\<close>
  (function, input, cause).  \<open>Panic\<close> is not an error value: it stands for a run-time
  panic (a reflective \<open>Set\<close> on a value reached through an unexported field, a slice
  bound out of range).
\<close>

datatype error =
    InvalidDestination
  | BodyDecodeError string
  | UnsupportedType kind
  | InvalidNumber string string numErr
  | Panic string

section \<open>strconv\<close>

text \<open>
  \<open>strconv.ParseUint(s, 10, 64)\<close> and \<open>strconv.ParseInt(s, 10, 64)\<close>, after the Go
  standard library: base 10 is given explicitly, so no prefix and no underscore is
  accepted; the accumulator is a uint64, held as an integer with its wrap-around written
  out.  Both return the number together with the error, as in Go.
\<close>

definition maxUint64 :: int where
  "maxUint64 = 2 ^ 64 - 1"

definition isDigit :: "char \<Rightarrow> bool" where
  "isDigit c = (48 \<le> (of_char c :: int) \<and> (of_char c :: int) \<le> 57)"

fun parseUintLoop :: "int \<Rightarrow> string \<Rightarrow> int \<times> numErr option" where
  "parseUintLoop n [] = (n, None)"
| "parseUintLoop n (c # cs) =
     (if \<not> isDigit c then (0, Some ErrSyntax)
      else if n \<ge> maxUint64 div 10 + 1 then (maxUint64, Some ErrRange)
      else (let n0 = (n * 10) mod 2 ^ 64;
                n1 = (n0 + (of_char c - 48)) mod 2 ^ 64
            in if n1 < n0 \<or> n1 > maxUint64 then (maxUint64, Some ErrRange)
               else parseUintLoop n1 cs))"

definition ParseUint :: "string \<Rightarrow> int \<times> numErr option" where
  "ParseUint s = (if s = [] then (0, Some ErrSyntax) else parseUintLoop 0 s)"

definition ParseInt :: "string \<Rightarrow> int \<times> numErr option" where
  "ParseInt s0 =
     (if s0 = [] then (0, Some ErrSyntax)
      else
        (let neg = (hd s0 = CHR ''-'');
             s = (if hd s0 = CHR ''+'' \<or> hd s0 = CHR ''-'' then tl s0 else s0);
             (un, err) = ParseUint s;
             cutoff = (2 :: int) ^ 63
         in if err \<noteq> None \<and> err \<noteq> Some ErrRange then (0, err)
            else if \<not> neg \<and> un \<ge> cutoff then (cutoff - 1, Some ErrRange)
            else if neg \<and> un > cutoff then (- cutoff, Some ErrRange)
            else (if neg then - un else un, None)))"

section \<open>The request\<close>

text \<open>
  What the decoder reads of an \<open>*http.Request\<close>: the header table (\<open>r.Header\<close>, keyed by
  canonical names), the table that \<open>r.URL.Query()\<close> parses the query string into, the
  cookies of the request in the order \<open>r.Cookie\<close> scans them (name, value), and the body.
\<close>

record request =
  Header :: "string \<rightharpoonup> string list"
  URL_Query :: "string \<rightharpoonup> string list"
  Cookies :: "(string \<times> string) list"
  Body :: string

text \<open>
  \<open>textproto.CanonicalMIMEHeaderKey\<close>, after the Go standard library: a key made of
  header-field bytes only gets an upper-case first letter and an upper-case letter after
  every dash, all other letters lower-case; any other key is returned unchanged.
\<close>

definition isLower :: "char \<Rightarrow> bool" where
  "isLower c = (97 \<le> (of_char c :: int) \<and> (of_char c :: int) \<le> 122)"

definition isUpper :: "char \<Rightarrow> bool" where
  "isUpper c = (65 \<le> (of_char c :: int) \<and> (of_char c :: int) \<le> 90)"

definition validHeaderFieldByte :: "char \<Rightarrow> bool" where
  "validHeaderFieldByte c =
     (isLower c \<or> isUpper c \<or> isDigit c \<or> c \<in> set ''!#$%&*+-.^_`|~'' \<or> c = CHR 0x27)"

fun canonLoop :: "bool \<Rightarrow> string \<Rightarrow> string" where
  "canonLoop upper [] = []"
| "canonLoop upper (c # cs) =
     (let c' = (if upper \<and> isLower c then char_of ((of_char c :: int) - 32)
                else if \<not> upper \<and> isUpper c then char_of ((of_char c :: int) + 32)
                else c)
      in c' # canonLoop (c' = CHR ''-'') cs)"

definition CanonicalMIMEHeaderKey :: "string \<Rightarrow> string" where
  "CanonicalMIMEHeaderKey s = (if list_all validHeaderFieldByte s then canonLoop True s else s)"

text \<open>\<open>h.Get(key)\<close>: the first value under the canonical key, the empty string if none.\<close>

definition Header_Get :: "(string \<rightharpoonup> string list) \<Rightarrow> string \<Rightarrow> string" where
  "Header_Get h key =
     (case h (CanonicalMIMEHeaderKey key) of
        None \<Rightarrow> []
      | Some [] \<Rightarrow> []
      | Some (v # _) \<Rightarrow> v)"

text \<open>\<open>r.Cookie(name)\<close>: the first cookie of that name, or \<open>ErrNoCookie\<close> (\<open>None\<close>).\<close>

definition Request_Cookie :: "request \<Rightarrow> string \<Rightarrow> (string \<times> string) option" where
  "Request_Cookie r name =
     (if name = [] then None else find (\<lambda>c. fst c = name) (Cookies r))"

section \<open>What the package takes from outside\<close>

text \<open>
  The JSON decoder (\<open>json.NewDecoder(r.Body).Decode(dest)\<close>: from the body and the
  destination to an error, if any, and the destination as it leaves it),
  \<open>strconv.ParseFloat(s, 64)\<close>, the conversion \<open>float32(x)\<close> that \<open>SetFloat\<close> applies to a
  float32 field (its result kept as a float64), and the package variable
  \<open>currentPathLookuper\<close>.
\<close>

record env =
  jsonDecode :: "string \<Rightarrow> gval option \<Rightarrow> string option \<times> gval option"
  ParseFloat :: "string \<Rightarrow> float64 \<times> numErr option"
  toFloat32 :: "float64 \<Rightarrow> float64"
  currentPathLookuper :: "request \<Rightarrow> string \<Rightarrow> string \<times> bool"

text \<open>\<open>defaultPathLookuper\<close>.\<close>

definition defaultPathLookuper :: "request \<Rightarrow> string \<Rightarrow> string \<times> bool" where
  "defaultPathLookuper r name = ([], False)"

section \<open>The decoder\<close>

text \<open>\<open>decodeIn\<close>: the request, the query table once parsed, the cookies found so far.\<close>

record decodeIn =
  in_r :: request
  in_queryVals :: "(string \<rightharpoonup> string list) option"
  in_parsedCookies :: "(string \<times> string) list"

definition findCookieVal :: "decodeIn \<Rightarrow> string \<Rightarrow> string \<times> bool" where
  "findCookieVal inp name =
     (case find (\<lambda>cookie. fst cookie = name) (in_parsedCookies inp) of
        Some cookie \<Rightarrow> (snd cookie, True)
      | None \<Rightarrow> ([], False))"

datatype tagType = tagTypeNone | tagTypeQuery | tagTypePath | tagTypeHeader | tagTypeCookie

text \<open>\<open>t.Tag.Lookup(key)\<close>: the value of the first pair with that key.\<close>

definition Tag_Lookup :: "structTag \<Rightarrow> string \<Rightarrow> string \<times> bool" where
  "Tag_Lookup tg key = (case map_of tg key of Some v \<Rightarrow> (v, True) | None \<Rightarrow> ([], False))"

definition findInTag :: "'a structField \<Rightarrow> string \<times> tagType \<times> bool" where
  "findInTag t =
     (case Tag_Lookup (Tag t) ''query'' of (tg, ok) \<Rightarrow>
      if ok \<and> tg \<noteq> [] then (tg, tagTypeQuery, True) else
     (case Tag_Lookup (Tag t) ''path'' of (tg, ok) \<Rightarrow>
      if ok \<and> tg \<noteq> [] then (tg, tagTypePath, True) else
     (case Tag_Lookup (Tag t) ''header'' of (tg, ok) \<Rightarrow>
      if ok \<and> tg \<noteq> [] then (tg, tagTypeHeader, True) else
     (case Tag_Lookup (Tag t) ''cookie'' of (tg, ok) \<Rightarrow>
      if ok \<and> tg \<noteq> [] then (tg, tagTypeCookie, True) else
      ([], tagTypeNone, False)))))"

text \<open>
  \<open>getValue\<close> returns the decode context as it leaves it (the query table is parsed at
  the first query lookup, a cookie found is appended to the cache), the value and the
  presence flag.
\<close>

definition getValue :: "env \<Rightarrow> decodeIn \<Rightarrow> string \<Rightarrow> tagType \<Rightarrow> decodeIn \<times> string \<times> bool" where
  "getValue env inp name tt =
     (case tt of
        tagTypeQuery \<Rightarrow>
          (let inp1 = (if in_queryVals inp = None
                       then inp\<lparr>in_queryVals := Some (URL_Query (in_r inp))\<rparr> else inp)
           in case in_queryVals inp1 of
                None \<Rightarrow> (inp1, [], False)
              | Some q \<Rightarrow>
                 (case q name of
                    None \<Rightarrow> (inp1, [], False)
                  | Some [] \<Rightarrow> (inp1, [], False)
                  | Some (v # _) \<Rightarrow> (inp1, v, True)))
      | tagTypePath \<Rightarrow>
          (case currentPathLookuper env (in_r inp) name of (v, ok) \<Rightarrow> (inp, v, ok))
      | tagTypeHeader \<Rightarrow> (inp, Header_Get (Header (in_r inp)) name, True)
      | tagTypeCookie \<Rightarrow>
          (case findCookieVal inp name of
             (cookieVal, True) \<Rightarrow> (inp, cookieVal, True)
           | (_, False) \<Rightarrow>
              (case Request_Cookie (in_r inp) name of
                 None \<Rightarrow> (inp, [], False)
               | Some cookie \<Rightarrow>
                   (inp\<lparr>in_parsedCookies := in_parsedCookies inp @ [cookie]\<rparr>,
                    snd cookie, True)))
      | tagTypeNone \<Rightarrow> (inp, [], False))"

text \<open>
  The read-only bits of a \<open>reflect.Value\<close>.  \<open>v.Field(i)\<close> inherits \<open>flagStickyRO\<close> from
  the struct and clears \<open>flagEmbedRO\<close>; an unexported field then gets \<open>flagEmbedRO\<close> when it
  is embedded and \<open>flagStickyRO\<close> when it is not.  So the exported members of an embedded
  unexported struct can be set, the members of any other unexported struct cannot.
  \<open>v.Elem()\<close> keeps both bits.  A setter panics when either bit is set (\<open>flagRO\<close>).
  The value \<open>Unmarshal\<close> starts from has neither (\<open>noRO\<close>).
\<close>

record roFlags =
  flagStickyRO :: bool
  flagEmbedRO :: bool

definition noRO :: roFlags where
  "noRO = \<lparr>flagStickyRO = False, flagEmbedRO = False\<rparr>"

definition flagRO :: "roFlags \<Rightarrow> bool" where
  "flagRO fl = (flagStickyRO fl \<or> flagEmbedRO fl)"

definition Field_flag :: "roFlags \<Rightarrow> 'a structField \<Rightarrow> roFlags" where
  "Field_flag fl field =
     \<lparr>flagStickyRO = (flagStickyRO fl \<or> (PkgPath field \<noteq> [] \<and> \<not> Anonymous field)),
      flagEmbedRO = (PkgPath field \<noteq> [] \<and> Anonymous field)\<rparr>"

text \<open>
  The panic of a reflective setter (\<open>Set\<close>, \<open>SetString\<close>, \<open>SetInt\<close>, ...) on a value
  obtained through an unexported struct field.
\<close>

definition roPanic :: error where
  "roPanic = Panic ''reflect: value obtained using unexported field''"

text \<open>Measures for the recursion through \<open>reflect.New\<close>.\<close>

primrec tsize :: "gtype \<Rightarrow> nat" where
  "tsize TBool = 0"
| "tsize (TInt k) = 0"
| "tsize (TUint k) = 0"
| "tsize (TFloat k) = 0"
| "tsize TString = 0"
| "tsize (TPtr t) = Suc (tsize t)"
| "tsize (TStruct fs) = Suc (sum_list (map (\<lambda>f. Suc (Content f)) (map (map_structField tsize) fs)))"
| "tsize (TOther k) = 0"

primrec vsize :: "gval \<Rightarrow> nat" where
  "vsize (VBool b) = 0"
| "vsize (VInt k i) = 0"
| "vsize (VUint k n) = 0"
| "vsize (VFloat k x) = 0"
| "vsize (VString s) = 0"
| "vsize (VNil t) = Suc (tsize t)"
| "vsize (VRef v) = Suc (vsize v)"
| "vsize (VStruct fs) = Suc (sum_list (map (\<lambda>f. Suc (Content f)) (map (map_structField vsize) fs)))"
| "vsize (VOther k x) = 0"

definition fsize :: "gval structField list \<Rightarrow> nat" where
  "fsize fs = sum_list (map (\<lambda>f. Suc (vsize (Content f))) fs)"

lemma vsize_zero: "vsize (zero t) = tsize t"
  by (induction t)
    (auto simp: o_def structField.map_sel structField.set_sel intro!: arg_cong [where f = sum_list] map_cong)

lemma vsize_VStruct: "vsize (VStruct fs) = Suc (fsize fs)"
  by (simp add: fsize_def o_def structField.map_sel)

lemma fsize_Cons: "fsize (f # fs) = Suc (vsize (Content f)) + fsize fs"
  by (simp add: fsize_def)

text \<open>
  \<open>setField\<close> returns the error, if any, and the field as it leaves it.  \<open>ro\<close> says that
  a read-only bit of the value is set.  \<open>SetInt\<close> and \<open>SetUint\<close> store the
  64-bit number converted to the field's width (Go's conversion keeps the low bits).
\<close>

function setField :: "env \<Rightarrow> bool \<Rightarrow> gval \<Rightarrow> string \<Rightarrow> error option \<times> gval" where
  "setField env ro (VNil t) val =
     (if ro then (Some roPanic, VNil t)
      else (case setField env ro (zero t) val of (err, v') \<Rightarrow> (err, VRef v')))"
| "setField env ro (VRef v) val =
     (case setField env ro v val of (err, v') \<Rightarrow> (err, VRef v'))"
| "setField env ro (VString s) val =
     (if ro then (Some roPanic, VString s) else (None, VString val))"
| "setField env ro (VInt k i) val =
     (case ParseInt val of
        (intVal, Some e) \<Rightarrow> (Some (InvalidNumber ''ParseInt'' val e), VInt k i)
      | (intVal, None) \<Rightarrow>
          if ro then (Some roPanic, VInt k i)
          else (None, VInt k (signed_take_bit (intBits k - 1) intVal)))"
| "setField env ro (VUint k n) val =
     (case ParseUint val of
        (uintVal, Some e) \<Rightarrow> (Some (InvalidNumber ''ParseUint'' val e), VUint k n)
      | (uintVal, None) \<Rightarrow>
          if ro then (Some roPanic, VUint k n)
          else (None, VUint k (take_bit (uintBits k) uintVal)))"
| "setField env ro (VFloat k x) val =
     (case ParseFloat env val of
        (floatVal, Some e) \<Rightarrow> (Some (InvalidNumber ''ParseFloat'' val e), VFloat k x)
      | (floatVal, None) \<Rightarrow>
          if ro then (Some roPanic, VFloat k x)
          else (None, VFloat k (case k of F32 \<Rightarrow> toFloat32 env floatVal | F64 \<Rightarrow> floatVal)))"
| "setField env ro (VBool b) val =
     (if ro then (Some roPanic, VBool b)
      else if val = ''true'' then (None, VBool True) else (None, VBool False))"
| "setField env ro (VStruct fs) val = (Some (UnsupportedType KStruct), VStruct fs)"
| "setField env ro (VOther k x) val = (Some (UnsupportedType (kindOfOther k)), VOther k x)"
  by pat_completeness auto
termination
  by (relation "measure (\<lambda>(env, ro, v, val). vsize v)") (auto simp: vsize_zero)

text \<open>
  The name path is a byte slice.  \<open>s[:n]\<close> panics when \<open>n\<close> is negative; the walker never
  asks for more than the length, and a bound beyond the length is treated like the panic.
\<close>

definition sliceTo :: "string \<Rightarrow> int \<Rightarrow> string option" where
  "sliceTo s n = (if 0 \<le> n \<and> n \<le> int (length s) then Some (take (nat n) s) else None)"

definition delimiter :: char where
  "delimiter = CHR ''.''"

definition appendWithDelimiter :: "string \<Rightarrow> string \<Rightarrow> string" where
  "appendWithDelimiter prefix name = (prefix @ name) @ [delimiter]"

definition popWithDelimiter :: "string \<Rightarrow> string \<Rightarrow> string option" where
  "popWithDelimiter prefix name = sliceTo prefix (int (length prefix) - int (length name) - 1)"

definition boundsPanic :: error where
  "boundsPanic = Panic ''slice bounds out of range''"

text \<open>
  \<open>decode\<close> returns the error, if any, the decode context and the value as it leaves
  them.  \<open>decodeFields\<close> is the loop over the fields of a struct, from the field it is
  given on; \<open>fullName\<close> is the loop's variable, reassigned by every iteration.
\<close>

function decode :: "env \<Rightarrow> decodeIn \<Rightarrow> roFlags \<Rightarrow> gval \<Rightarrow> string \<Rightarrow> error option \<times> decodeIn \<times> gval"
  and decodeFields ::
    "env \<Rightarrow> decodeIn \<Rightarrow> roFlags \<Rightarrow> gval structField list \<Rightarrow> string \<Rightarrow> error option \<times> decodeIn \<times> gval structField list"
where
  "decode env inp fl (VNil t) fullName =
     (if flagRO fl then (Some roPanic, inp, VNil t)
      else (case decode env inp fl (zero t) fullName of (err, inp', v') \<Rightarrow> (err, inp', VRef v')))"
| "decode env inp fl (VRef v) fullName =
     (case decode env inp fl v fullName of (err, inp', v') \<Rightarrow> (err, inp', VRef v'))"
| "decode env inp fl (VStruct fs) fullName =
     (case decodeFields env inp fl fs fullName of (err, inp', fs') \<Rightarrow> (err, inp', VStruct fs'))"
| "decode env inp fl (VBool b) fullName = (Some (UnsupportedType KBool), inp, VBool b)"
| "decode env inp fl (VInt k i) fullName = (Some (UnsupportedType (kindOfInt k)), inp, VInt k i)"
| "decode env inp fl (VUint k n) fullName = (Some (UnsupportedType (kindOfUint k)), inp, VUint k n)"
| "decode env inp fl (VFloat k x) fullName =
     (Some (UnsupportedType (kindOfFloat k)), inp, VFloat k x)"
| "decode env inp fl (VString s) fullName = (Some (UnsupportedType KString), inp, VString s)"
| "decode env inp fl (VOther k x) fullName =
     (Some (UnsupportedType (kindOfOther k)), inp, VOther k x)"
| "decodeFields env inp fl [] fullName = (None, inp, [])"
| "decodeFields env inp fl (field # rest) fullName =
     (case findInTag field of (name, tagType, ok) \<Rightarrow>
      if \<not> ok then
        (case decodeFields env inp fl rest fullName of
           (err, inp', rest') \<Rightarrow> (err, inp', field # rest'))
      else if kindOf (Content field) = KStruct then
        (case decode env inp (Field_flag fl field) (Content field)
                (appendWithDelimiter fullName name) of
           (Some err, inp1, v1) \<Rightarrow> (Some err, inp1, map_structField (\<lambda>_. v1) field # rest)
         | (None, inp1, v1) \<Rightarrow>
            (case popWithDelimiter (appendWithDelimiter fullName name) name of
               None \<Rightarrow> (Some boundsPanic, inp1, map_structField (\<lambda>_. v1) field # rest)
             | Some fullName' \<Rightarrow>
                (case decodeFields env inp1 fl rest fullName' of
                   (err, inp', rest') \<Rightarrow> (err, inp', map_structField (\<lambda>_. v1) field # rest'))))
      else
        (case getValue env inp (fullName @ name) tagType of (inp1, val, ok) \<Rightarrow>
        (case sliceTo (fullName @ name) (int (length (fullName @ name)) - int (length name)) of
           None \<Rightarrow> (Some boundsPanic, inp1, field # rest)
         | Some fullName' \<Rightarrow>
            if \<not> ok then
              (case decodeFields env inp1 fl rest fullName' of
                 (err, inp', rest') \<Rightarrow> (err, inp', field # rest'))
            else
              (case setField env (flagRO (Field_flag fl field)) (Content field) val of
                 (Some err, v1) \<Rightarrow> (Some err, inp1, map_structField (\<lambda>_. v1) field # rest)
               | (None, v1) \<Rightarrow>
                  (case decodeFields env inp1 fl rest fullName' of
                     (err, inp', rest') \<Rightarrow> (err, inp', map_structField (\<lambda>_. v1) field # rest'))))))"
  by pat_completeness auto
termination
  by (relation "measure (\<lambda>x. case x of
          Inl (env, inp, fl, v, fullName) \<Rightarrow> vsize v
        | Inr (env, inp, fl, fs, fullName) \<Rightarrow> fsize fs)")
     (auto simp: vsize_zero vsize_VStruct fsize_Cons simp del: vsize.simps(8))

text \<open>\<open>&decodeIn{r: r}\<close>.\<close>

definition newDecodeIn :: "request \<Rightarrow> decodeIn" where
  "newDecodeIn r = \<lparr>in_r = r, in_queryVals = None, in_parsedCookies = []\<rparr>"

text \<open>
  \<open>Unmarshal\<close>.  The destination is an \<open>interface{}\<close>: \<open>None\<close> is the nil interface.  The
  outcome is the error returned, if any, the destination as the call leaves it, and
  whether the call has read the body.  \<open>walk\<close> is the part of \<open>Unmarshal\<close> after the JSON
  step: the check of the destination and the walk over it with an empty name path.
\<close>

record outcome =
  out_err :: "error option"
  out_dest :: "gval option"
  out_bodyRead :: bool

definition walk :: "env \<Rightarrow> request \<Rightarrow> gval option \<Rightarrow> bool \<Rightarrow> outcome" where
  "walk env r d rd =
     (case d of
        Some (VRef v) \<Rightarrow>
          (case decode env (newDecodeIn r) noRO v [] of
             (e, inp', v') \<Rightarrow> \<lparr>out_err = e, out_dest = Some (VRef v'), out_bodyRead = rd\<rparr>)
      | _ \<Rightarrow> \<lparr>out_err = Some InvalidDestination, out_dest = d, out_bodyRead = rd\<rparr>)"

definition Unmarshal :: "env \<Rightarrow> request \<Rightarrow> gval option \<Rightarrow> outcome" where
  "Unmarshal env r d =
     (if Header_Get (Header r) ''Content-Type'' = ''application/json'' then
        (case jsonDecode env (Body r) d of
           (Some e, d') \<Rightarrow> \<lparr>out_err = Some (BodyDecodeError e), out_dest = d', out_bodyRead = True\<rparr>
         | (None, d') \<Rightarrow> walk env r d' True)
      else walk env r d False)"

section \<open>Concrete surroundings\<close>

text \<open>
  An environment and a request to evaluate the decoder on: the package as it starts
  (the default path lookuper), a JSON decoder that leaves the destination alone, a
  \<open>ParseFloat\<close> that rejects every input; a request with no header, no query parameter,
  no cookie and an empty body.
\<close>

definition defaultEnv :: env where
  "defaultEnv =
     \<lparr>jsonDecode = (\<lambda>body d. (None, d)),
      ParseFloat = (\<lambda>s. (0, Some ErrSyntax)),
      toFloat32 = (\<lambda>x. x),
      currentPathLookuper = defaultPathLookuper\<rparr>"

definition emptyRequest :: request where
  "emptyRequest = \<lparr>Header = Map.empty, URL_Query = Map.empty, Cookies = [], Body = []\<rparr>"



text \<open>
  A member of slice type fed by the query parameter \<open>tags\<close>, and a request that carries
  it; a struct of two \<open>int\<close> members fed by the query parameters \<open>a\<close> and \<open>b\<close>, and a
  request that gives \<open>12\<close> and \<open>abc\<close> for them.
\<close>

definition tagsField :: "gval structField" where
  "tagsField = StructField ''Tags'' [] [(''query'', ''tags'')] False (VOther OSlice [])"

definition intMember :: "string \<Rightarrow> string \<Rightarrow> int \<Rightarrow> gval structField" where
  "intMember name key i = StructField name [] [(''query'', key)] False (VInt SInt i)"

definition pairOfInts :: "gval structField list" where
  "pairOfInts = [intMember ''A'' ''a'' 0, intMember ''B'' ''b'' 0]"

definition pairRequest :: request where
  "pairRequest = emptyRequest\<lparr>URL_Query := [''a'' \<mapsto> [''12''], ''b'' \<mapsto> [''abc'']]\<rparr>"

definition tagsRequest :: request where
  "tagsRequest = emptyRequest\<lparr>URL_Query := [''tags'' \<mapsto> [''a'', ''b'']]\<rparr>"

text \<open>
  A destination with a nested record annotated \<open>query:"name"\<close> whose members are annotated
  \<open>query:"first"\<close> and \<open>query:"last"\<close>, and a request with the query string
  \<open>name.first=John&name.last=Doe\<close>.
\<close>

definition nameMembers :: "string \<Rightarrow> string \<Rightarrow> gval structField list" where
  "nameMembers firstName lastName =
     [StructField ''Name'' [] [(''query'', ''name'')] False
       (VStruct [StructField ''First'' [] [(''query'', ''first'')] False (VString firstName),
                 StructField ''Last'' [] [(''query'', ''last'')] False (VString lastName)])]"

definition nameRecord :: "string \<Rightarrow> string \<Rightarrow> gval" where
  "nameRecord firstName lastName = VStruct (nameMembers firstName lastName)"

definition nameRequest :: request where
  "nameRequest =
     emptyRequest\<lparr>URL_Query := [''name.first'' \<mapsto> [''John''], ''name.last'' \<mapsto> [''Doe'']]\<rparr>"

text \<open>
  A struct with one boolean member fed by the query parameter \<open>flag\<close>, and the request
  whose query string is a single parameter.
\<close>

definition flagMembers :: "bool \<Rightarrow> gval structField list" where
  "flagMembers b = [StructField ''Flag'' [] [(''query'', ''flag'')] False (VBool b)]"

definition oneParamRequest :: "string \<Rightarrow> string \<Rightarrow> request" where
  "oneParamRequest key raw = emptyRequest\<lparr>URL_Query := [key \<mapsto> [raw]]\<rparr>"

text \<open>
  The destination and the request of the repository's test \<open>query params only\<close>:
  a nested record for the name, with a pointer member, and an \<open>int\<close>, a \<open>bool\<close> and a
  \<open>uint\<close> member.
\<close>

definition fullNameMembers :: "string \<Rightarrow> string \<Rightarrow> gval \<Rightarrow> gval structField list" where
  "fullNameMembers firstName lastName middle =
     [StructField ''First'' [] [(''query'', ''first'')] False (VString firstName),
      StructField ''Last'' [] [(''query'', ''last'')] False (VString lastName),
      StructField ''Middle'' [] [(''query'', ''middle'')] False middle]"

definition testMembers :: "gval \<Rightarrow> int \<Rightarrow> bool \<Rightarrow> int \<Rightarrow> gval structField list" where
  "testMembers name age banned income =
     [StructField ''Name'' [] [(''query'', ''name'')] False name,
      StructField ''Age'' [] [(''query'', ''age'')] False (VInt SInt age),
      StructField ''Banned'' [] [(''query'', ''banned'')] False (VBool banned),
      StructField ''Income'' [] [(''query'', ''income'')] False (VUint UInt income)]"

definition testBefore :: "gval structField list" where
  "testBefore = testMembers (VStruct (fullNameMembers [] [] (VNil TString))) 0 False 0"

definition testAfter :: "gval structField list" where
  "testAfter =
     testMembers (VStruct (fullNameMembers ''John'' ''Doe'' (VRef (VString ''Middle''))))
       30 True 100000"

definition testRequest :: request where
  "testRequest =
     emptyRequest\<lparr>URL_Query :=
       [''name.first'' \<mapsto> [''John''], ''name.last'' \<mapsto> [''Doe''], ''age'' \<mapsto> [''30''],
        ''banned'' \<mapsto> [''true''], ''income'' \<mapsto> [''100000''],
        ''name.middle'' \<mapsto> [''Middle'']]\<rparr>"

text \<open>
  More members: an \<open>int\<close> member fed by the header \<open>X-Count\<close>; a string in an unexported
  member fed by the header \<open>X-Token\<close>; a pointer to a pointer to a
  string fed by the query parameter \<open>tags\<close>; a nil pointer to a slice in an unexported
  member fed by the same parameter, and a slice in an unexported member; a request with
  the query parameters \<open>b=abc\<close> and \<open>tags=a\<close>; an embedded struct of an unexported type
  (members \<open>First\<close> and \<open>Last\<close>) annotated \<open>query:"name"\<close>, and the same struct as a plain
  unexported member.
\<close>

definition countField :: "int \<Rightarrow> gval structField" where
  "countField i = StructField ''Count'' [] [(''header'', ''X-Count'')] False (VInt SInt i)"

definition hiddenTokenField :: "gval structField" where
  "hiddenTokenField =
     StructField ''token'' ''main'' [(''header'', ''X-Token'')] False (VString ''default'')"

definition deepStringField :: "gval \<Rightarrow> gval structField" where
  "deepStringField v = StructField ''Tags'' [] [(''query'', ''tags'')] False v"

definition hiddenTagsField :: "gval structField" where
  "hiddenTagsField =
     StructField ''tags'' ''main'' [(''query'', ''tags'')] False (VNil (TOther OSlice))"

definition hiddenSliceField :: "gval structField" where
  "hiddenSliceField =
     StructField ''tags'' ''main'' [(''query'', ''tags'')] False (VOther OSlice [])"

definition mixedRequest :: request where
  "mixedRequest = emptyRequest\<lparr>URL_Query := [''b'' \<mapsto> [''abc''], ''tags'' \<mapsto> [''a'']]\<rparr>"

definition embeddedName :: "string \<Rightarrow> string \<Rightarrow> gval structField list" where
  "embeddedName firstName lastName =
     [StructField ''fullName'' ''main'' [(''query'', ''name'')] True
       (VStruct [StructField ''First'' [] [(''query'', ''first'')] False (VString firstName),
                 StructField ''Last'' [] [(''query'', ''last'')] False (VString lastName)])]"

definition hiddenName :: "string \<Rightarrow> string \<Rightarrow> gval structField list" where
  "hiddenName firstName lastName =
     [StructField ''name'' ''main'' [(''query'', ''name'')] False
       (VStruct [StructField ''First'' [] [(''query'', ''first'')] False (VString firstName),
                 StructField ''Last'' [] [(''query'', ''last'')] False (VString lastName)])]"

section \<open>Notions of the specification\<close>

text \<open>
  The priority order of the four source annotations, as a list.  An annotation counts
  when its key is in the tag with a non-empty value; \<open>firstAnnotation\<close> is the first
  one of the list that counts, with its value.
\<close>

definition tagPriority :: "(string \<times> tagType) list" where
  "tagPriority =
     [(''query'', tagTypeQuery), (''path'', tagTypePath), (''header'', tagTypeHeader),
      (''cookie'', tagTypeCookie)]"

definition annotation :: "structTag \<Rightarrow> string \<Rightarrow> string option" where
  "annotation tg key = (case map_of tg key of Some v \<Rightarrow> if v = [] then None else Some v | None \<Rightarrow> None)"

definition firstAnnotation :: "structTag \<Rightarrow> (string \<times> tagType) option" where
  "firstAnnotation tg =
     (case List.map_filter (\<lambda>(key, tt). map_option (\<lambda>v. (v, tt)) (annotation tg key)) tagPriority of
        [] \<Rightarrow> None
      | x # _ \<Rightarrow> Some x)"

text \<open>
  The kind a member has once its pointers are followed (a pointer to a pointer to a
  string has kind string), and the kinds that scalar coercion can assign: string, the
  signed and unsigned integers, the floats, boolean.
\<close>

fun elemKindT :: "gtype \<Rightarrow> kind" where
  "elemKindT (TPtr t) = elemKindT t"
| "elemKindT TBool = KBool"
| "elemKindT (TInt k) = kindOfInt k"
| "elemKindT (TUint k) = kindOfUint k"
| "elemKindT (TFloat k) = kindOfFloat k"
| "elemKindT TString = KString"
| "elemKindT (TStruct fs) = KStruct"
| "elemKindT (TOther k) = kindOfOther k"

fun elemKind :: "gval \<Rightarrow> kind" where
  "elemKind (VNil t) = elemKindT t"
| "elemKind (VRef v) = elemKind v"
| "elemKind v = kindOf v"

definition supportedKind :: "kind \<Rightarrow> bool" where
  "supportedKind k =
     (k \<in> {KString, KInt, KInt8, KInt16, KInt32, KInt64, KUint, KUint8, KUint16, KUint32,
           KUint64, KFloat32, KFloat64, KBool})"

text \<open>
  Whether following the pointers of a value meets a nil pointer, which \<open>setField\<close> has to
  allocate with a reflective \<open>Set\<close>.
\<close>

fun pointsToNil :: "gval \<Rightarrow> bool" where
  "pointsToNil (VNil t) = True"
| "pointsToNil (VRef v) = pointsToNil v"
| "pointsToNil v = False"

text \<open>
  The walker as the specification describes it: it carries the stack of the segments of
  the nested records it is in, pushes a segment to walk a nested record and goes on with
  the stack it had, and resolves a scalar member against the segments of the stack, each
  followed by the delimiter, and the member's own segment.
\<close>

definition joinPath :: "string list \<Rightarrow> string" where
  "joinPath stack = concat (map (\<lambda>segment. segment @ [delimiter]) stack)"

function stackDecode ::
    "env \<Rightarrow> decodeIn \<Rightarrow> roFlags \<Rightarrow> gval \<Rightarrow> string list \<Rightarrow> error option \<times> decodeIn \<times> gval"
  and stackFields ::
    "env \<Rightarrow> decodeIn \<Rightarrow> roFlags \<Rightarrow> gval structField list \<Rightarrow> string list
      \<Rightarrow> error option \<times> decodeIn \<times> gval structField list"
where
  "stackDecode env inp fl (VNil t) stack =
     (if flagRO fl then (Some roPanic, inp, VNil t)
      else (case stackDecode env inp fl (zero t) stack of (err, inp', v') \<Rightarrow> (err, inp', VRef v')))"
| "stackDecode env inp fl (VRef v) stack =
     (case stackDecode env inp fl v stack of (err, inp', v') \<Rightarrow> (err, inp', VRef v'))"
| "stackDecode env inp fl (VStruct fs) stack =
     (case stackFields env inp fl fs stack of (err, inp', fs') \<Rightarrow> (err, inp', VStruct fs'))"
| "stackDecode env inp fl (VBool b) stack = (Some (UnsupportedType KBool), inp, VBool b)"
| "stackDecode env inp fl (VInt k i) stack = (Some (UnsupportedType (kindOfInt k)), inp, VInt k i)"
| "stackDecode env inp fl (VUint k n) stack = (Some (UnsupportedType (kindOfUint k)), inp, VUint k n)"
| "stackDecode env inp fl (VFloat k x) stack =
     (Some (UnsupportedType (kindOfFloat k)), inp, VFloat k x)"
| "stackDecode env inp fl (VString s) stack = (Some (UnsupportedType KString), inp, VString s)"
| "stackDecode env inp fl (VOther k x) stack =
     (Some (UnsupportedType (kindOfOther k)), inp, VOther k x)"
| "stackFields env inp fl [] stack = (None, inp, [])"
| "stackFields env inp fl (field # rest) stack =
     (case findInTag field of (name, tagType, ok) \<Rightarrow>
      if \<not> ok then
        (case stackFields env inp fl rest stack of
           (err, inp', rest') \<Rightarrow> (err, inp', field # rest'))
      else if kindOf (Content field) = KStruct then
        (case stackDecode env inp (Field_flag fl field) (Content field) (stack @ [name]) of
           (Some err, inp1, v1) \<Rightarrow> (Some err, inp1, map_structField (\<lambda>_. v1) field # rest)
         | (None, inp1, v1) \<Rightarrow>
            (case stackFields env inp1 fl rest stack of
               (err, inp', rest') \<Rightarrow> (err, inp', map_structField (\<lambda>_. v1) field # rest')))
      else
        (case getValue env inp (joinPath stack @ name) tagType of (inp1, val, ok) \<Rightarrow>
           if \<not> ok then
             (case stackFields env inp1 fl rest stack of
                (err, inp', rest') \<Rightarrow> (err, inp', field # rest'))
           else
             (case setField env (flagRO (Field_flag fl field)) (Content field) val of
                (Some err, v1) \<Rightarrow> (Some err, inp1, map_structField (\<lambda>_. v1) field # rest)
              | (None, v1) \<Rightarrow>
                 (case stackFields env inp1 fl rest stack of
                    (err, inp', rest') \<Rightarrow> (err, inp', map_structField (\<lambda>_. v1) field # rest')))))"
  by pat_completeness auto
termination
  by (relation "measure (\<lambda>x. case x of
          Inl (env, inp, fl, v, stack) \<Rightarrow> vsize v
        | Inr (env, inp, fl, fs, stack) \<Rightarrow> fsize fs)")
     (auto simp: vsize_zero vsize_VStruct fsize_Cons simp del: vsize.simps(8))

text \<open>
  The round trip over the query-name convention.  \<open>firstValue\<close> is the first value a query
  table has for a key.  \<open>queryValues\<close> reads a struct back: the dotted paths of its
  query-annotated scalar members, in the walker's order and with the walker's names, each
  with the value the member holds.  \<open>coerced\<close> is what the round trip gives for an entry:
  the coercion of the first query value of its path into the member, or the member as it
  was when the path has no value.  \<open>stringOf\<close> is the string found by following the
  pointers of a value.  \<open>walkInput\<close> is the destination as the walk gets it: as the JSON
  decoder left it when the body is decoded, as it was given otherwise.  \<open>cacheOK\<close> says
  that the query table of the decode context, once parsed, is the request's.
  \<open>stringsOnly\<close> says that every annotated scalar member can be set and is a string once
  its pointers are followed.
\<close>

definition firstValue :: "(string \<rightharpoonup> string list) \<Rightarrow> string \<Rightarrow> string option" where
  "firstValue q key = (case q key of Some (v # _) \<Rightarrow> Some v | _ \<Rightarrow> None)"

function queryValues :: "gval structField list \<Rightarrow> string \<Rightarrow> (string \<times> gval) list" where
  "queryValues [] prefix = []"
| "queryValues (f # rest) prefix =
     (case findInTag f of (name, tt, ok) \<Rightarrow>
        if \<not> ok then []
        else (case Content f of
                VStruct gs \<Rightarrow> queryValues gs (prefix @ name @ [delimiter])
              | v \<Rightarrow> if tt = tagTypeQuery then [(prefix @ name, v)] else []))
     @ queryValues rest prefix"
  by pat_completeness auto
termination
  by (relation "measure (\<lambda>(fs, prefix). fsize fs)")
     (auto simp: vsize_VStruct fsize_Cons simp del: vsize.simps(8))

definition coerced :: "env \<Rightarrow> (string \<rightharpoonup> string list) \<Rightarrow> string \<times> gval \<Rightarrow> string \<times> gval" where
  "coerced env q entry =
     (fst entry,
      case firstValue q (fst entry) of
        Some raw \<Rightarrow> snd (setField env False (snd entry) raw)
      | None \<Rightarrow> snd entry)"

fun stringOf :: "gval \<Rightarrow> string option" where
  "stringOf (VString s) = Some s"
| "stringOf (VRef v) = stringOf v"
| "stringOf _ = None"

definition walkInput :: "env \<Rightarrow> request \<Rightarrow> gval option \<Rightarrow> gval option" where
  "walkInput env r d =
     (if Header_Get (Header r) ''Content-Type'' = ''application/json''
      then snd (jsonDecode env (Body r) d) else d)"

definition cacheOK :: "decodeIn \<Rightarrow> bool" where
  "cacheOK inp = (in_queryVals inp = None \<or> in_queryVals inp = Some (URL_Query (in_r inp)))"

function stringsOnly :: "roFlags \<Rightarrow> gval structField list \<Rightarrow> bool" where
  "stringsOnly fl [] = True"
| "stringsOnly fl (f # rest) =
     ((case findInTag f of (name, tt, ok) \<Rightarrow>
         if \<not> ok then True
         else (case Content f of
                 VStruct gs \<Rightarrow> stringsOnly (Field_flag fl f) gs
               | v \<Rightarrow> \<not> flagRO (Field_flag fl f) \<and> elemKind v = KString))
      \<and> stringsOnly fl rest)"
  by pat_completeness auto
termination
  by (relation "measure (\<lambda>(fl, fs). fsize fs)")
     (auto simp: vsize_VStruct fsize_Cons simp del: vsize.simps(8))

section \<open>How the walker unfolds\<close>

text \<open>
  The name path comes back from every iteration as it went in, so the two slice bounds
  never panic and the loop has the simpler equation \<open>decodeFields_Cons\<close>.
\<close>

lemma sliceTo_restore: "sliceTo (p @ n) (int (length (p @ n)) - int (length n)) = Some p"
  by (simp add: sliceTo_def)

lemma popWithDelimiter_append: "popWithDelimiter (appendWithDelimiter p n) n = Some p"
  by (simp add: popWithDelimiter_def appendWithDelimiter_def sliceTo_def)

lemma decodeFields_Cons:
  "decodeFields env inp fl (field # rest) fullName =
     (case findInTag field of (name, tagType, ok) \<Rightarrow>
      if \<not> ok then
        (case decodeFields env inp fl rest fullName of
           (err, inp', rest') \<Rightarrow> (err, inp', field # rest'))
      else if kindOf (Content field) = KStruct then
        (case decode env inp (Field_flag fl field) (Content field)
                (fullName @ name @ [delimiter]) of
           (Some err, inp1, v1) \<Rightarrow> (Some err, inp1, map_structField (\<lambda>_. v1) field # rest)
         | (None, inp1, v1) \<Rightarrow>
            (case decodeFields env inp1 fl rest fullName of
               (err, inp', rest') \<Rightarrow> (err, inp', map_structField (\<lambda>_. v1) field # rest')))
      else
        (case getValue env inp (fullName @ name) tagType of (inp1, val, ok) \<Rightarrow>
           if \<not> ok then
             (case decodeFields env inp1 fl rest fullName of
                (err, inp', rest') \<Rightarrow> (err, inp', field # rest'))
           else
             (case setField env (flagRO (Field_flag fl field)) (Content field) val of
                (Some err, v1) \<Rightarrow> (Some err, inp1, map_structField (\<lambda>_. v1) field # rest)
              | (None, v1) \<Rightarrow>
                 (case decodeFields env inp1 fl rest fullName of
                    (err, inp', rest') \<Rightarrow> (err, inp', map_structField (\<lambda>_. v1) field # rest')))))"
  by (simp add: popWithDelimiter_append sliceTo_restore [simplified]
        split: prod.splits option.splits)
      (simp add: appendWithDelimiter_def)

declare decodeFields.simps(2) [simp del]

lemma map_structField_Content: "map_structField (\<lambda>_. Content f) f = f"
  by (cases f) simp

lemma decodeFields_append:
  "decodeFields env inp fl (xs @ ys) fullName =
     (case decodeFields env inp fl xs fullName of
        (Some e, inp1, xs') \<Rightarrow> (Some e, inp1, xs' @ ys)
      | (None, inp1, xs') \<Rightarrow>
          (case decodeFields env inp1 fl ys fullName of
             (e, inp2, ys') \<Rightarrow> (e, inp2, xs' @ ys')))"
proof (induction xs arbitrary: inp)
  case Nil
  show ?case by (simp split: prod.splits)
next
  case (Cons x xs)
  show ?case
    by (simp add: decodeFields_Cons Cons.IH split: prod.splits option.splits)
qed

subsection \<open>Induction over a walk\<close>

text \<open>
  The walker goes from a nil pointer to the zero value of its element type, from a
  pointer to its target, from a struct to its members.  A property of every walk follows
  by induction along these steps.
\<close>

lemma gval_walk_induct [case_names VNil VRef VStruct VBool VInt VUint VFloat VString VOther Nil Cons]:
  assumes "\<And>t. P (zero t) \<Longrightarrow> P (VNil t)"
    and "\<And>v. P v \<Longrightarrow> P (VRef v)"
    and "\<And>fs. Q fs \<Longrightarrow> P (VStruct fs)"
    and "\<And>b. P (VBool b)"
    and "\<And>k i. P (VInt k i)"
    and "\<And>k n. P (VUint k n)"
    and "\<And>k x. P (VFloat k x)"
    and "\<And>s. P (VString s)"
    and "\<And>k x. P (VOther k x)"
    and "Q []"
    and "\<And>f fs. P (Content f) \<Longrightarrow> Q fs \<Longrightarrow> Q (f # fs)"
  shows "P v" and "Q fs"
proof -
  have "(\<forall>v. vsize v = n \<longrightarrow> P v) \<and> (\<forall>fs. fsize fs = n \<longrightarrow> Q fs)" for n
  proof (induction n rule: less_induct)
    case (less n)
    have Pv: "P v" if "vsize v < n" for v
      using less.IH [of "vsize v"] that by simp
    have Qf: "Q fs" if "fsize fs < n" for fs
      using less.IH [of "fsize fs"] that by simp
    have "P v" if "vsize v = n" for v
    proof (cases v)
      case (VNil t)
      with that assms(1) Pv [of "zero t"] show ?thesis by (simp add: vsize_zero)
    next
      case (VRef w)
      with that assms(2) Pv [of w] show ?thesis by simp
    next
      case (VStruct gs)
      with that assms(3) Qf [of gs] show ?thesis by (simp add: vsize_VStruct del: vsize.simps(8))
    qed (simp_all add: assms)
    moreover have "Q fs" if "fsize fs = n" for fs
    proof (cases fs)
      case Nil
      with assms(10) show ?thesis by simp
    next
      case (Cons g gs)
      with that assms(11) Pv [of "Content g"] Qf [of gs] show ?thesis
        by (simp add: fsize_Cons)
    qed
    ultimately show ?case by blast
  qed
  then show "P v" and "Q fs" by blast+
qed

subsection \<open>The walk does not use the JSON decoder\<close>

lemma setField_env_jsonDecode:
  "setField (env\<lparr>jsonDecode := j\<rparr>) ro v val = setField env ro v val"
  by (induction env ro v val rule: setField.induct)
    (simp_all split: prod.splits option.splits floatKind.splits)

lemma getValue_env_jsonDecode:
  "getValue (env\<lparr>jsonDecode := j\<rparr>) inp name tt = getValue env inp name tt"
  by (simp add: getValue_def split: tagType.splits)

lemma decode_env_jsonDecode:
  "decode (env\<lparr>jsonDecode := j\<rparr>) inp fl v fullName = decode env inp fl v fullName"
  "decodeFields (env\<lparr>jsonDecode := j\<rparr>) inp fl fs fullName = decodeFields env inp fl fs fullName"
proof (induction v and fs arbitrary: inp fl fullName and inp fl fullName rule: gval_walk_induct)
  case (Cons f fs)
  show ?case
    by (simp add: decodeFields_Cons setField_env_jsonDecode getValue_env_jsonDecode Cons
          split: prod.splits option.splits)
qed simp_all

lemma walk_bodyRead: "out_bodyRead (walk env r d rd) = rd"
  by (simp add: walk_def split: option.splits gval.splits prod.splits)

lemma walk_env_jsonDecode: "walk (env\<lparr>jsonDecode := j\<rparr>) r d rd = walk env r d rd"
  by (simp add: walk_def decode_env_jsonDecode cong: option.case_cong gval.case_cong)

lemma canonical_Content_Type: "CanonicalMIMEHeaderKey ''Content-Type'' = ''Content-Type''"
  by code_simp

subsection \<open>Kinds that cannot be assigned\<close>

lemma elemKind_zero: "elemKind (zero t) = elemKindT t"
  by (cases t) simp_all

lemma supportedKind_scalar:
  "supportedKind (kindOfInt k)" "supportedKind (kindOfUint ku)" "supportedKind (kindOfFloat kf)"
  "supportedKind KString" "supportedKind KBool" "\<not> supportedKind KStruct"
  "\<not> supportedKind (kindOfOther ko)"
  by (cases k; cases ku; cases kf; cases ko; simp add: supportedKind_def)+

lemma setField_unsupported:
  "\<not> supportedKind (elemKind v) \<Longrightarrow> (ro \<longrightarrow> \<not> pointsToNil v) \<Longrightarrow>
     fst (setField env ro v val) = Some (UnsupportedType (elemKind v))"
  by (induction env ro v val rule: setField.induct)
    (auto simp add: elemKind_zero supportedKind_scalar split: prod.splits)

lemma setField_nil_ro: "pointsToNil v \<Longrightarrow> fst (setField env True v val) = Some roPanic"
  by (induction env "True" v val rule: setField.induct) (auto split: prod.splits)

lemma scalar_not_struct:
  "kindOfInt k \<noteq> KStruct" "kindOfUint ku \<noteq> KStruct" "kindOfFloat kf \<noteq> KStruct"
proof -
  show "kindOfInt k \<noteq> KStruct" by (cases k) simp_all
  show "kindOfUint ku \<noteq> KStruct" by (cases ku) simp_all
  show "kindOfFloat kf \<noteq> KStruct" by (cases kf) simp_all
qed

lemma ParseInt_empty: "ParseInt [] = (0, Some ErrSyntax)"
  by (simp add: ParseInt_def)

lemma ParseUint_empty: "ParseUint [] = (0, Some ErrSyntax)"
  by (simp add: ParseUint_def)

subsection \<open>The walker that carries a stack\<close>

lemma joinPath_snoc: "joinPath (stack @ [name]) = joinPath stack @ name @ [delimiter]"
  by (simp add: joinPath_def)

lemma decode_stackDecode:
  "decode env inp fl v (joinPath stack) = stackDecode env inp fl v stack"
  "decodeFields env inp fl fs (joinPath stack) = stackFields env inp fl fs stack"
proof (induction v and fs arbitrary: inp fl stack and inp fl stack rule: gval_walk_induct)
  case (Cons f fs)
  show ?case
    by (simp add: decodeFields_Cons Cons joinPath_snoc [symmetric]
          split: prod.splits option.splits)
qed simp_all

lemma nameRecord_decode:
  assumes "URL_Query r ''name.first'' = Some (x # xs)"
    and "URL_Query r ''name.last'' = Some (y # ys)"
  shows "decode env (newDecodeIn r) noRO (nameRecord a b) []
           = (None, (newDecodeIn r)\<lparr>in_queryVals := Some (URL_Query r)\<rparr>, nameRecord x y)"
  using assms
  by (simp add: nameRecord_def nameMembers_def decodeFields_Cons findInTag_def Tag_Lookup_def
        getValue_def newDecodeIn_def delimiter_def Field_flag_def flagRO_def noRO_def)

subsection \<open>Walks and the query values\<close>

lemma getValue_query:
  "cacheOK inp \<Longrightarrow>
     getValue env inp key tagTypeQuery
       = (inp\<lparr>in_queryVals := Some (URL_Query (in_r inp))\<rparr>,
          (case firstValue (URL_Query (in_r inp)) key of Some v \<Rightarrow> v | None \<Rightarrow> []),
          firstValue (URL_Query (in_r inp)) key \<noteq> None)"
  by (auto simp add: getValue_def cacheOK_def firstValue_def split: option.splits list.splits)

lemma getValue_cache:
  "cacheOK inp \<Longrightarrow> getValue env inp key tt = (inp1, val, got) \<Longrightarrow>
     cacheOK inp1 \<and> in_r inp1 = in_r inp"
  by (auto simp add: getValue_def cacheOK_def Let_def
        split: tagType.splits option.splits list.splits prod.splits bool.splits if_splits)

lemma Tag_map [simp]: "Tag (map_structField g f) = Tag f"
  by (cases f) simp

lemma findInTag_map [simp]: "findInTag (map_structField g f) = findInTag f"
  by (simp only: findInTag_def Tag_map)

lemma Content_map [simp]: "Content (map_structField g f) = g (Content f)"
  by (cases f) simp

lemma setField_kind: "kindOf (snd (setField env ro v val)) = kindOf v"
  by (induction env ro v val rule: setField.induct) (auto split: prod.splits option.splits)

lemma setField_ro: "fst (setField env True v val) \<noteq> None"
  by (induction env "True" v val rule: setField.induct) (auto split: prod.splits option.splits)

lemma setField_success:
  "setField env ro v val = (None, v') \<Longrightarrow> setField env False v val = (None, v')"
  using setField_ro [of env v val] by (cases ro) auto

lemma kindOf_struct: "kindOf v = KStruct \<Longrightarrow> \<exists>gs. v = VStruct gs"
  by (cases v)
    (auto elim: kindOfInt.elims kindOfUint.elims kindOfFloat.elims kindOfOther.elims)

lemma queryValues_skip:
  "findInTag f = (name, tt, False) \<Longrightarrow> queryValues (f # rest) prefix = queryValues rest prefix"
  by simp

lemma queryValues_struct:
  "findInTag f = (name, tt, True) \<Longrightarrow> Content f = VStruct gs \<Longrightarrow>
     queryValues (f # rest) prefix
       = queryValues gs (prefix @ name @ [delimiter]) @ queryValues rest prefix"
  by simp

lemma queryValues_leaf:
  "findInTag f = (name, tt, True) \<Longrightarrow> kindOf (Content f) \<noteq> KStruct \<Longrightarrow>
     queryValues (f # rest) prefix
       = (if tt = tagTypeQuery then [(prefix @ name, Content f)] else []) @ queryValues rest prefix"
  by (cases "Content f") auto

lemma coerced_present:
  "firstValue q key = Some raw \<Longrightarrow> coerced env q (key, v) = (key, snd (setField env False v raw))"
  by (simp add: coerced_def)

lemma coerced_absent: "firstValue q key = None \<Longrightarrow> coerced env q (key, v) = (key, v)"
  by (simp add: coerced_def)


declare queryValues.simps(2) [simp del]

lemma decode_values:
  "\<forall>gs inp fl prefix inp' fs'. v = VStruct gs \<longrightarrow> cacheOK inp \<longrightarrow>
     decodeFields env inp fl gs prefix = (None, inp', fs') \<longrightarrow>
     cacheOK inp' \<and> in_r inp' = in_r inp
     \<and> queryValues fs' prefix = map (coerced env (URL_Query (in_r inp))) (queryValues gs prefix)"
  "\<forall>inp fl prefix inp' fs'. cacheOK inp \<longrightarrow>
     decodeFields env inp fl fs prefix = (None, inp', fs') \<longrightarrow>
     cacheOK inp' \<and> in_r inp' = in_r inp
     \<and> queryValues fs' prefix = map (coerced env (URL_Query (in_r inp))) (queryValues fs prefix)"
proof (induction v and fs rule: gval_walk_induct)
  case (Cons f fs)
  show ?case
  proof (intro allI impI)
    fix inp fl prefix inp' fs'
    assume ok: "cacheOK inp"
      and run: "decodeFields env inp fl (f # fs) prefix = (None, inp', fs')"
    let ?q = "URL_Query (in_r inp)"
    obtain name tt present where tag: "findInTag f = (name, tt, present)"
      by (cases "findInTag f") auto
    show "cacheOK inp' \<and> in_r inp' = in_r inp
        \<and> queryValues fs' prefix = map (coerced env ?q) (queryValues (f # fs) prefix)"
    proof (cases present)
      case False
      from run tag False obtain rest' where
        r: "decodeFields env inp fl fs prefix = (None, inp', rest')" and fs': "fs' = f # rest'"
        by (auto simp add: decodeFields_Cons split: prod.splits)
      from Cons.IH(2) ok r have
        "cacheOK inp' \<and> in_r inp' = in_r inp
         \<and> queryValues rest' prefix = map (coerced env ?q) (queryValues fs prefix)"
        by blast
      with tag False fs' show ?thesis
        by (simp add: queryValues_skip [of _ name tt])
    next
      case True
      show ?thesis
      proof (cases "kindOf (Content f) = KStruct")
        case struct: True
        then obtain gs where gs: "Content f = VStruct gs"
          using kindOf_struct by blast
        from run tag True struct gs obtain inp1 gs' rest' where
          n: "decodeFields env inp (Field_flag fl f) gs (prefix @ name @ [delimiter])
                = (None, inp1, gs')"
          and r: "decodeFields env inp1 fl fs prefix = (None, inp', rest')"
          and fs': "fs' = map_structField (\<lambda>_. VStruct gs') f # rest'"
          by (auto simp add: decodeFields_Cons split: prod.splits option.splits)
        from Cons.IH(1) gs ok n have n':
          "cacheOK inp1" "in_r inp1 = in_r inp"
          "queryValues gs' (prefix @ name @ [delimiter])
             = map (coerced env ?q) (queryValues gs (prefix @ name @ [delimiter]))"
          by blast+
        from Cons.IH(2) n'(1) r have r':
          "cacheOK inp'" "in_r inp' = in_r inp1"
          "queryValues rest' prefix = map (coerced env (URL_Query (in_r inp1))) (queryValues fs prefix)"
          by blast+
        from tag True gs fs' n' r' show ?thesis
          by (simp add: queryValues_struct [of _ name tt])
      next
        case leaf: False
        obtain inp1 val got where g: "getValue env inp (prefix @ name) tt = (inp1, val, got)"
          by (cases "getValue env inp (prefix @ name) tt") auto
        from getValue_cache [OF ok g] have c: "cacheOK inp1" "in_r inp1 = in_r inp"
          by simp_all
        show ?thesis
        proof (cases got)
          case False
          from run tag True leaf g False obtain rest' where
            r: "decodeFields env inp1 fl fs prefix = (None, inp', rest')" and fs': "fs' = f # rest'"
            by (auto simp add: decodeFields_Cons split: prod.splits)
          from Cons.IH(2) c(1) r have r':
            "cacheOK inp'" "in_r inp' = in_r inp1"
            "queryValues rest' prefix
               = map (coerced env (URL_Query (in_r inp1))) (queryValues fs prefix)"
            by blast+
          have "tt = tagTypeQuery \<Longrightarrow> firstValue ?q (prefix @ name) = None"
            using g False getValue_query [OF ok, of env "prefix @ name"] by simp
          with tag True leaf fs' c r' show ?thesis
            by (simp add: queryValues_leaf [of _ name tt] coerced_absent)
        next
          case got: True
          from run tag True leaf g got obtain v1 rest' where
            s: "setField env (flagRO (Field_flag fl f)) (Content f) val = (None, v1)"
            and r: "decodeFields env inp1 fl fs prefix = (None, inp', rest')"
            and fs': "fs' = map_structField (\<lambda>_. v1) f # rest'"
            by (auto simp add: decodeFields_Cons split: prod.splits option.splits)
          from setField_success [OF s] have s': "setField env False (Content f) val = (None, v1)" .
          from setField_kind [of env False "Content f" val] s' leaf
          have k: "kindOf v1 \<noteq> KStruct" by simp
          from Cons.IH(2) c(1) r have r':
            "cacheOK inp'" "in_r inp' = in_r inp1"
            "queryValues rest' prefix
               = map (coerced env (URL_Query (in_r inp1))) (queryValues fs prefix)"
            by blast+
          have "tt = tagTypeQuery \<Longrightarrow> firstValue ?q (prefix @ name) = Some val"
            using g got getValue_query [OF ok, of env "prefix @ name"]
            by (auto split: option.splits)
          with tag True leaf k fs' c r' s' show ?thesis
            by (simp add: queryValues_leaf [of _ name tt] coerced_present)
        qed
      qed
    qed
  qed
qed simp_all

lemma scalar_not_string:
  "kindOfInt k \<noteq> KString" "kindOfUint ku \<noteq> KString" "kindOfFloat kf \<noteq> KString"
  "kindOfOther ko \<noteq> KString"
proof -
  show "kindOfInt k \<noteq> KString" by (cases k) simp_all
  show "kindOfUint ku \<noteq> KString" by (cases ku) simp_all
  show "kindOfFloat kf \<noteq> KString" by (cases kf) simp_all
  show "kindOfOther ko \<noteq> KString" by (cases ko) simp_all
qed

lemma string_setField:
  "elemKind v = KString \<Longrightarrow>
     stringOf (snd (setField env False v val)) = Some val \<and> fst (setField env False v val) = None"
  by (induction env "False" v val rule: setField.induct)
    (auto simp add: elemKind_zero scalar_not_string split: prod.splits)

lemma string_not_struct: "elemKind v = KString \<Longrightarrow> kindOf v \<noteq> KStruct"
  by (cases v) (auto simp add: scalar_not_string)

lemma decode_stringsOnly:
  "\<forall>gs inp fl prefix. v = VStruct gs \<longrightarrow> stringsOnly fl gs \<longrightarrow>
     fst (decodeFields env inp fl gs prefix) = None"
  "\<forall>inp fl prefix. stringsOnly fl fs \<longrightarrow> fst (decodeFields env inp fl fs prefix) = None"
proof (induction v and fs rule: gval_walk_induct)
  case (Cons f fs)
  show ?case
  proof (intro allI impI)
    fix inp fl prefix
    assume so: "stringsOnly fl (f # fs)"
    obtain name tt present where tag: "findInTag f = (name, tt, present)"
      by (cases "findInTag f") auto
    from so tag have rest: "stringsOnly fl fs" by simp
    with Cons.IH(2) have later: "fst (decodeFields env inp1 fl fs prefix) = None" for inp1
      by blast
    show "fst (decodeFields env inp fl (f # fs) prefix) = None"
    proof (cases present)
      case False
      with tag later [of inp] show ?thesis
        by (simp add: decodeFields_Cons case_prod_beta)
    next
      case True
      show ?thesis
      proof (cases "kindOf (Content f) = KStruct")
        case struct: True
        then obtain gs where gs: "Content f = VStruct gs"
          using kindOf_struct by blast
        with so tag True have "stringsOnly (Field_flag fl f) gs" by simp
        with Cons.IH(1) gs have
          "fst (decodeFields env inp (Field_flag fl f) gs (prefix @ name @ [delimiter])) = None"
          by blast
        with tag True struct gs later show ?thesis
          by (auto simp add: decodeFields_Cons case_prod_beta split: prod.splits option.splits)
      next
        case leaf: False
        with so tag True have settable: "\<not> flagRO (Field_flag fl f)"
          and str: "elemKind (Content f) = KString"
          by (cases "Content f"; simp)+
        from string_setField [OF str] have
          "fst (setField env False (Content f) val) = None" for val
          by simp
        with tag True leaf settable later show ?thesis
          by (auto simp add: decodeFields_Cons case_prod_beta split: prod.splits option.splits)
      qed
    qed
  qed
qed simp_all

subsection \<open>The entry point and the walk\<close>

lemma cacheOK_new: "cacheOK (newDecodeIn r)" "in_r (newDecodeIn r) = r"
  by (simp_all add: cacheOK_def newDecodeIn_def)

lemma Unmarshal_walkInput:
  "Header_Get (Header r) ''Content-Type'' \<noteq> ''application/json''
     \<or> fst (jsonDecode env (Body r) d) = None \<Longrightarrow>
   out_err (Unmarshal env r d) = out_err (walk env r (walkInput env r d) rd)
   \<and> out_dest (Unmarshal env r d) = out_dest (walk env r (walkInput env r d) rd)"
  by (auto simp add: Unmarshal_def walkInput_def walk_def
        split: prod.splits option.splits gval.splits)

lemma Unmarshal_no_error:
  "out_err (Unmarshal env r d) = None \<Longrightarrow>
     Header_Get (Header r) ''Content-Type'' \<noteq> ''application/json''
     \<or> fst (jsonDecode env (Body r) d) = None"
  by (auto simp add: Unmarshal_def split: prod.splits option.splits)

lemma walk_struct:
  "out_err (walk env r (Some (VRef (VStruct fs))) rd) = fst (decodeFields env (newDecodeIn r) noRO fs [])"
  "out_dest (walk env r (Some (VRef (VStruct fs))) rd)
     = Some (VRef (VStruct (snd (snd (decodeFields env (newDecodeIn r) noRO fs [])))))"
  by (simp_all add: walk_def split: prod.splits)

section \<open>The repository's test\<close>

text \<open>
  The embedding gives what the test \<open>query params only\<close> of the repository asserts.  The
  exported members of an embedded struct of an unexported type are set; behind a plain
  unexported member the first reflective setter panics.
\<close>

lemma test_query_params_only:
  "Unmarshal defaultEnv testRequest (Some (VRef (VStruct testBefore)))
   = \<lparr>out_err = None, out_dest = Some (VRef (VStruct testAfter)), out_bodyRead = False\<rparr>"
  by code_simp

lemma embedded_unexported_struct:
  "Unmarshal defaultEnv nameRequest (Some (VRef (VStruct (embeddedName [] []))))
   = \<lparr>out_err = None, out_dest = Some (VRef (VStruct (embeddedName ''John'' ''Doe''))),
      out_bodyRead = False\<rparr>"
  "Unmarshal defaultEnv nameRequest (Some (VRef (VStruct (hiddenName [] []))))
   = \<lparr>out_err = Some roPanic, out_dest = Some (VRef (VStruct (hiddenName [] []))),
      out_bodyRead = False\<rparr>"
  by code_simp+

section \<open>Scalar coercion\<close>

text \<open>
  Claim C5.  Coercing a raw string into a boolean field that can be set stores \<open>true\<close>
  exactly when the string is literally \<open>true\<close>, stores \<open>false\<close> for every other string,
  and returns no error, whatever the string.  (Through an unexported field the reflective
  setter panics; that is the only other outcome.)
\<close>

theorem setField_bool_exact:
  "setField env ro (VBool b) val =
     (if ro then (Some roPanic, VBool b) else (None, VBool (val = ''true'')))"
  by simp

theorem setField_bool_exact_witness:
  "setField defaultEnv False (VBool False) ''true'' = (None, VBool True)
   \<and> setField defaultEnv False (VBool True) ''True'' = (None, VBool False)
   \<and> setField defaultEnv False (VBool True) ''False'' = (None, VBool False)
   \<and> setField defaultEnv False (VBool True) ''1'' = (None, VBool False)
   \<and> setField defaultEnv False (VBool True) [] = (None, VBool False)
   \<and> setField defaultEnv False (VBool True) ''yes'' = (None, VBool False)
   \<and> setField defaultEnv False (VBool True) ''false'' = (None, VBool False)"
  using setField_bool_exact [of defaultEnv False False "''true''"]
    setField_bool_exact [of defaultEnv False True "''True''"]
    setField_bool_exact [of defaultEnv False True "''False''"]
    setField_bool_exact [of defaultEnv False True "''1''"]
    setField_bool_exact [of defaultEnv False True "[]"]
    setField_bool_exact [of defaultEnv False True "''yes''"]
    setField_bool_exact [of defaultEnv False True "''false''"]
  by simp

text \<open>
  Claim C10, as amended.  A raw value that parses as a 64-bit integer is never refused
  for being too wide for the field: parsing always uses the 64-bit width, \<open>setField\<close>
  returns no error and does not panic, and the field holds the number reduced to the
  field's width (two's complement for the signed kinds, the low bits for the unsigned
  ones).  \<open>300\<close> becomes \<open>44\<close> in an int8 field and in a uint8 field.
\<close>

theorem setField_int_truncates:
  "(ParseInt val = (n, None) \<longrightarrow>
      setField env False (VInt k i) val = (None, VInt k (signed_take_bit (intBits k - 1) n)))
   \<and> (ParseUint val = (m, None) \<longrightarrow>
      setField env False (VUint ku u) val = (None, VUint ku (take_bit (uintBits ku) m)))"
  by simp

theorem setField_int_truncates_witness:
  "ParseInt ''300'' = (300, None)
   \<and> setField defaultEnv False (VInt SInt8 0) ''300'' = (None, VInt SInt8 44)
   \<and> ParseUint ''300'' = (300, None)
   \<and> setField defaultEnv False (VUint UInt8 0) ''300'' = (None, VUint UInt8 44)"
proof -
  have i: "ParseInt ''300'' = (300, None)" by code_simp
  have u: "ParseUint ''300'' = (300, None)" by code_simp
  have s: "signed_take_bit (intBits SInt8 - 1) (300 :: int) = 44" by code_simp
  have t: "take_bit (uintBits UInt8) (300 :: int) = 44" by code_simp
  from i u s t
    setField_int_truncates [of "''300''" 300 defaultEnv SInt8 0 300 UInt8 0]
  show ?thesis by simp
qed

text \<open>
  The claim as stated expects a run-time panic of \<open>SetInt\<close> or \<open>SetUint\<close> there.  The
  call returns nil instead.
\<close>

theorem setField_narrow_no_panic:
  "fst (setField defaultEnv False (VInt SInt8 0) ''300'') = None
   \<and> fst (setField defaultEnv False (VUint UInt8 0) ''300'') = None"
  by code_simp

section \<open>Source annotations\<close>

text \<open>
  Claim C2 as stated fails for an empty annotation: a member tagged
  \<open>`query:"" path:"id"`\<close> carries a query annotation, and the path annotation wins.
\<close>

theorem findInTag_empty_query_counterexample:
  "Tag_Lookup [(''query'', []), (''path'', ''id'')] ''query'' = ([], True)
   \<and> findInTag (StructField ''ID'' [] [(''query'', []), (''path'', ''id'')] False (VString []))
       = (''id'', tagTypePath, True)"
  by code_simp

text \<open>
  Claim C2, as amended.  The source annotation of a member is the first of query, path,
  header, cookie that the member carries with a non-empty value, with that value as its
  name.  A member that carries none of the four keys (a json annotation alone, say) has
  no source annotation, and a member with no source annotation is skipped by the walker:
  the decode context goes to the next member as it came, and the member is in the result
  as it was.
\<close>

theorem findInTag_priority:
  "findInTag f =
     (case firstAnnotation (Tag f) of
        Some (name, tt) \<Rightarrow> (name, tt, True)
      | None \<Rightarrow> ([], tagTypeNone, False))
   \<and> ((\<forall>key \<in> set (map fst tagPriority). map_of (Tag f) key = None) \<longrightarrow>
        firstAnnotation (Tag f) = None)
   \<and> (firstAnnotation (Tag f) = None \<longrightarrow>
        decodeFields env inp fl (f # rest) fullName =
          (case decodeFields env inp fl rest fullName of
             (e, inp', rest') \<Rightarrow> (e, inp', f # rest')))"
proof -
  have a: "findInTag f =
     (case firstAnnotation (Tag f) of
        Some (name, tt) \<Rightarrow> (name, tt, True)
      | None \<Rightarrow> ([], tagTypeNone, False))"
    by (simp add: findInTag_def firstAnnotation_def tagPriority_def annotation_def
          Tag_Lookup_def split: option.splits)
  have b: "(\<forall>key \<in> set (map fst tagPriority). map_of (Tag f) key = None) \<longrightarrow>
        firstAnnotation (Tag f) = None"
    by (simp add: firstAnnotation_def tagPriority_def annotation_def)
  have c: "firstAnnotation (Tag f) = None \<longrightarrow>
        decodeFields env inp fl (f # rest) fullName =
          (case decodeFields env inp fl rest fullName of
             (e, inp', rest') \<Rightarrow> (e, inp', f # rest'))"
    by (simp add: decodeFields_Cons a)
  from a b c show ?thesis by blast
qed

theorem findInTag_priority_witness:
  "firstAnnotation [(''json'', ''app_config'')] = None
   \<and> findInTag (StructField ''AppConfig'' [] [(''json'', ''app_config'')] False (VString ''x''))
       = ([], tagTypeNone, False)
   \<and> decodeFields defaultEnv (newDecodeIn emptyRequest) noRO
         [StructField ''AppConfig'' [] [(''json'', ''app_config'')] False (VString ''x'')] []
       = (None, newDecodeIn emptyRequest,
          [StructField ''AppConfig'' [] [(''json'', ''app_config'')] False (VString ''x'')])
   \<and> findInTag (StructField ''Token'' [] [(''cookie'', ''c''), (''header'', ''h''), (''query'', ''q'')] False
         (VString []))
       = (''q'', tagTypeQuery, True)"
proof -
  have n: "firstAnnotation [(''json'', ''app_config'')] = None" by code_simp
  have q: "firstAnnotation [(''cookie'', ''c''), (''header'', ''h''), (''query'', ''q'')]
             = Some (''q'', tagTypeQuery)" by code_simp
  from n q
    findInTag_priority [of "StructField ''AppConfig'' [] [(''json'', ''app_config'')] False (VString ''x'')"
      defaultEnv "newDecodeIn emptyRequest" noRO "[]" "[]"]
    findInTag_priority [of "StructField ''Token'' [] [(''cookie'', ''c''), (''header'', ''h''), (''query'', ''q'')] False (VString [])"
      defaultEnv "newDecodeIn emptyRequest" noRO "[]" "[]"]
  show ?thesis by simp
qed

section \<open>Source resolvers\<close>

text \<open>
  Claim C3 as stated fails for a numeric member: the empty string that the header resolver
  gives for a missing header is no number, so coercion does not overwrite the member but
  returns the parse error.  An \<open>int\<close> member annotated \<open>header:"X-Count"\<close> and pre-set to 5,
  decoded from a request without that header, still holds 5, and \<open>Unmarshal\<close> returns the
  error of \<open>ParseInt\<close>.  It also fails for a member that cannot be set: a string in an
  unexported member annotated \<open>header:"X-Token"\<close> keeps its default, and the setter panics.
\<close>

theorem header_numeric_counterexample:
  "Header emptyRequest (CanonicalMIMEHeaderKey ''X-Count'') = None
   \<and> Unmarshal defaultEnv emptyRequest (Some (VRef (VStruct [countField 5])))
       = \<lparr>out_err = Some (InvalidNumber ''ParseInt'' [] ErrSyntax),
          out_dest = Some (VRef (VStruct [countField 5])), out_bodyRead = False\<rparr>
   \<and> Header emptyRequest (CanonicalMIMEHeaderKey ''X-Token'') = None
   \<and> Unmarshal defaultEnv emptyRequest (Some (VRef (VStruct [hiddenTokenField])))
       = \<lparr>out_err = Some roPanic,
          out_dest = Some (VRef (VStruct [hiddenTokenField])), out_bodyRead = False\<rparr>"
proof -
  have "Header emptyRequest (CanonicalMIMEHeaderKey name) = None" for name
    by (simp add: emptyRequest_def)
  moreover have "Unmarshal defaultEnv emptyRequest (Some (VRef (VStruct [countField 5])))
       = \<lparr>out_err = Some (InvalidNumber ''ParseInt'' [] ErrSyntax),
          out_dest = Some (VRef (VStruct [countField 5])), out_bodyRead = False\<rparr>"
    by code_simp
  moreover have "Unmarshal defaultEnv emptyRequest (Some (VRef (VStruct [hiddenTokenField])))
       = \<lparr>out_err = Some roPanic,
          out_dest = Some (VRef (VStruct [hiddenTokenField])), out_bodyRead = False\<rparr>"
    by code_simp
  ultimately show ?thesis by simp
qed

text \<open>
  Claim C3, as amended.  The header resolver reports every name as present, with
  \<open>Header.Get\<close> of the name as its value: the empty string when the request has no header
  of that name.  So a header-annotated scalar member is never skipped: coercion always
  runs on it, with that value.  A string member that can be set is overwritten whatever
  it held, with the empty string when the header is missing; a boolean member that can be
  set likewise, with \<open>false\<close> when the header is missing.  For a signed or unsigned integer
  member and a missing header, the walk stops with the syntax error of \<open>ParseInt\<close> or
  \<open>ParseUint\<close> on the empty string and the member keeps what it held; for a float member
  likewise with the error \<open>ParseFloat\<close> gives for the empty string.
\<close>

theorem header_always_present:
  "getValue env inp name tagTypeHeader = (inp, Header_Get (Header (in_r inp)) name, True)
   \<and> (Header (in_r inp) (CanonicalMIMEHeaderKey name) = None \<longrightarrow>
        getValue env inp name tagTypeHeader = (inp, [], True))
   \<and> (findInTag f = (tg, tagTypeHeader, True) \<and> kindOf (Content f) \<noteq> KStruct \<longrightarrow>
        decodeFields env inp fl (f # rest) fullName =
          (case setField env (flagRO (Field_flag fl f)) (Content f)
                  (Header_Get (Header (in_r inp)) (fullName @ tg)) of
             (Some e, v1) \<Rightarrow> (Some e, inp, map_structField (\<lambda>_. v1) f # rest)
           | (None, v1) \<Rightarrow>
               (case decodeFields env inp fl rest fullName of
                  (e, inp', rest') \<Rightarrow> (e, inp', map_structField (\<lambda>_. v1) f # rest'))))
   \<and> (findInTag f = (tg, tagTypeHeader, True) \<and> Content f = VString old
      \<and> \<not> flagRO (Field_flag fl f) \<longrightarrow>
        decodeFields env inp fl (f # rest) fullName =
          (case decodeFields env inp fl rest fullName of
             (e, inp', rest') \<Rightarrow>
               (e, inp',
                map_structField (\<lambda>_. VString (Header_Get (Header (in_r inp)) (fullName @ tg))) f
                # rest')))
   \<and> (findInTag f = (tg, tagTypeHeader, True) \<and> Content f = VBool b
      \<and> \<not> flagRO (Field_flag fl f) \<longrightarrow>
        decodeFields env inp fl (f # rest) fullName =
          (case decodeFields env inp fl rest fullName of
             (e, inp', rest') \<Rightarrow>
               (e, inp',
                map_structField (\<lambda>_. VBool (Header_Get (Header (in_r inp)) (fullName @ tg) = ''true'')) f
                # rest')))
   \<and> (findInTag f = (tg, tagTypeHeader, True) \<and> Content f = VInt k i
      \<and> Header (in_r inp) (CanonicalMIMEHeaderKey (fullName @ tg)) = None \<longrightarrow>
        decodeFields env inp fl (f # rest) fullName
          = (Some (InvalidNumber ''ParseInt'' [] ErrSyntax), inp, f # rest))
   \<and> (findInTag f = (tg, tagTypeHeader, True) \<and> Content f = VUint ku u
      \<and> Header (in_r inp) (CanonicalMIMEHeaderKey (fullName @ tg)) = None \<longrightarrow>
        decodeFields env inp fl (f # rest) fullName
          = (Some (InvalidNumber ''ParseUint'' [] ErrSyntax), inp, f # rest))
   \<and> (findInTag f = (tg, tagTypeHeader, True) \<and> Content f = VFloat kf x
      \<and> Header (in_r inp) (CanonicalMIMEHeaderKey (fullName @ tg)) = None
      \<and> ParseFloat env [] = (y, Some e) \<longrightarrow>
        decodeFields env inp fl (f # rest) fullName
          = (Some (InvalidNumber ''ParseFloat'' [] e), inp, f # rest))"
proof -
  let ?hv = "Header_Get (Header (in_r inp)) (fullName @ tg)"
  have g: "getValue env inp name tagTypeHeader = (inp, Header_Get (Header (in_r inp)) name, True)"
    for name
    by (simp add: getValue_def)
  have a: "Header (in_r inp) (CanonicalMIMEHeaderKey name) = None \<longrightarrow>
        getValue env inp name tagTypeHeader = (inp, [], True)" for name
    by (simp add: getValue_def Header_Get_def)
  have missing: "?hv = []" if "Header (in_r inp) (CanonicalMIMEHeaderKey (fullName @ tg)) = None"
    using that by (simp add: Header_Get_def)
  have c: "findInTag f = (tg, tagTypeHeader, True) \<and> kindOf (Content f) \<noteq> KStruct \<longrightarrow>
        decodeFields env inp fl (f # rest) fullName =
          (case setField env (flagRO (Field_flag fl f)) (Content f) ?hv of
             (Some e, v1) \<Rightarrow> (Some e, inp, map_structField (\<lambda>_. v1) f # rest)
           | (None, v1) \<Rightarrow>
               (case decodeFields env inp fl rest fullName of
                  (e, inp', rest') \<Rightarrow> (e, inp', map_structField (\<lambda>_. v1) f # rest')))"
    by (simp add: g decodeFields_Cons)
  have s: "findInTag f = (tg, tagTypeHeader, True) \<and> Content f = VString old
      \<and> \<not> flagRO (Field_flag fl f) \<longrightarrow>
        decodeFields env inp fl (f # rest) fullName =
          (case decodeFields env inp fl rest fullName of
             (e, inp', rest') \<Rightarrow>
               (e, inp', map_structField (\<lambda>_. VString ?hv) f # rest'))"
    by (simp add: g decodeFields_Cons)
  have b: "findInTag f = (tg, tagTypeHeader, True) \<and> Content f = VBool b
      \<and> \<not> flagRO (Field_flag fl f) \<longrightarrow>
        decodeFields env inp fl (f # rest) fullName =
          (case decodeFields env inp fl rest fullName of
             (e, inp', rest') \<Rightarrow>
               (e, inp', map_structField (\<lambda>_. VBool (?hv = ''true'')) f # rest'))"
    by (simp add: g decodeFields_Cons)
  have i: "findInTag f = (tg, tagTypeHeader, True) \<and> Content f = VInt k i
      \<and> Header (in_r inp) (CanonicalMIMEHeaderKey (fullName @ tg)) = None \<longrightarrow>
        decodeFields env inp fl (f # rest) fullName
          = (Some (InvalidNumber ''ParseInt'' [] ErrSyntax), inp, f # rest)"
    using map_structField_Content [of f]
    by (auto simp add: g decodeFields_Cons missing ParseInt_empty scalar_not_struct)
  have u: "findInTag f = (tg, tagTypeHeader, True) \<and> Content f = VUint ku u
      \<and> Header (in_r inp) (CanonicalMIMEHeaderKey (fullName @ tg)) = None \<longrightarrow>
        decodeFields env inp fl (f # rest) fullName
          = (Some (InvalidNumber ''ParseUint'' [] ErrSyntax), inp, f # rest)"
    using map_structField_Content [of f]
    by (auto simp add: g decodeFields_Cons missing ParseUint_empty scalar_not_struct)
  have x: "findInTag f = (tg, tagTypeHeader, True) \<and> Content f = VFloat kf x
      \<and> Header (in_r inp) (CanonicalMIMEHeaderKey (fullName @ tg)) = None
      \<and> ParseFloat env [] = (y, Some e) \<longrightarrow>
        decodeFields env inp fl (f # rest) fullName
          = (Some (InvalidNumber ''ParseFloat'' [] e), inp, f # rest)"
    using map_structField_Content [of f]
    by (auto simp add: g decodeFields_Cons missing scalar_not_struct)
  from g [of name] a [of name] c s b i u x show ?thesis by blast
qed

theorem header_always_present_witness:
  "Header emptyRequest (CanonicalMIMEHeaderKey ''X-Token'') = None
   \<and> getValue defaultEnv (newDecodeIn emptyRequest) ''X-Token'' tagTypeHeader
       = (newDecodeIn emptyRequest, [], True)
   \<and> decodeFields defaultEnv (newDecodeIn emptyRequest) noRO
         [StructField ''Token'' [] [(''header'', ''X-Token'')] False (VString ''default'')] []
       = (None, newDecodeIn emptyRequest,
          [StructField ''Token'' [] [(''header'', ''X-Token'')] False (VString [])])
   \<and> findInTag (countField 5) = (''X-Count'', tagTypeHeader, True)
   \<and> Header (in_r (newDecodeIn emptyRequest)) (CanonicalMIMEHeaderKey ''X-Count'') = None
   \<and> decodeFields defaultEnv (newDecodeIn emptyRequest) noRO [countField 5] []
       = (Some (InvalidNumber ''ParseInt'' [] ErrSyntax), newDecodeIn emptyRequest,
          [countField 5])"
proof -
  have t: "findInTag (StructField ''Token'' [] [(''header'', ''X-Token'')] False (VString ''default''))
            = (''X-Token'', tagTypeHeader, True)" by code_simp
  have h: "Header_Get (Header emptyRequest) ''X-Token'' = []" by code_simp
  have s: "\<not> flagRO (Field_flag noRO
      (StructField ''Token'' [] [(''header'', ''X-Token'')] False (VString ''default'')))"
    by code_simp
  have tc: "findInTag (countField 5) = (''X-Count'', tagTypeHeader, True)" by code_simp
  have cc: "Content (countField 5) = VInt SInt 5" by code_simp
  have hc: "Header (in_r (newDecodeIn emptyRequest)) (CanonicalMIMEHeaderKey ''X-Count'') = None"
    by (simp add: newDecodeIn_def emptyRequest_def)
  from t h s
    header_always_present [where env = defaultEnv and inp = "newDecodeIn emptyRequest"
      and name = "''X-Token''"
      and f = "StructField ''Token'' [] [(''header'', ''X-Token'')] False (VString ''default'')"
      and tg = "''X-Token''" and old = "''default''" and fl = noRO and rest = "[]"
      and fullName = "[]"]
  have first: "Header emptyRequest (CanonicalMIMEHeaderKey ''X-Token'') = None
   \<and> getValue defaultEnv (newDecodeIn emptyRequest) ''X-Token'' tagTypeHeader
       = (newDecodeIn emptyRequest, [], True)
   \<and> decodeFields defaultEnv (newDecodeIn emptyRequest) noRO
         [StructField ''Token'' [] [(''header'', ''X-Token'')] False (VString ''default'')] []
       = (None, newDecodeIn emptyRequest,
          [StructField ''Token'' [] [(''header'', ''X-Token'')] False (VString [])])"
    by (simp add: emptyRequest_def newDecodeIn_def)
  from tc cc hc
    header_always_present [where env = defaultEnv and inp = "newDecodeIn emptyRequest"
      and name = "''X-Count''" and f = "countField 5" and tg = "''X-Count''" and k = SInt
      and i = 5 and fl = noRO and rest = "[]" and fullName = "[]" and old = "[]" and b = False
      and ku = UInt and u = 0 and kf = F64 and x = 0 and y = 0 and e = ErrSyntax,
      unfolded append_Nil]
  have second: "decodeFields defaultEnv (newDecodeIn emptyRequest) noRO [countField 5] []
       = (Some (InvalidNumber ''ParseInt'' [] ErrSyntax), newDecodeIn emptyRequest,
          [countField 5])"
    by blast
  from first second tc hc show ?thesis by simp
qed



section \<open>The entry point\<close>

text \<open>
  Claim C1.  \<open>Unmarshal\<close> reads the body and runs the JSON decoder exactly when
  \<open>Header.Get("Content-Type")\<close> is the string \<open>application/json\<close>.  With any other value
  (\<open>application/json; charset=utf-8\<close>, say) the body is left unread, the outcome is that
  of the walk alone, and it is the same whatever the JSON decoder would have done.
\<close>

theorem Unmarshal_json_gate:
  "out_bodyRead (Unmarshal env r d) = (Header_Get (Header r) ''Content-Type'' = ''application/json'')
   \<and> (Header_Get (Header r) ''Content-Type'' = ''application/json'' \<longrightarrow>
        Unmarshal env r d =
          (case jsonDecode env (Body r) d of
             (Some e, d') \<Rightarrow> \<lparr>out_err = Some (BodyDecodeError e), out_dest = d', out_bodyRead = True\<rparr>
           | (None, d') \<Rightarrow> walk env r d' True))
   \<and> (Header_Get (Header r) ''Content-Type'' \<noteq> ''application/json'' \<longrightarrow>
        Unmarshal env r d = walk env r d False
        \<and> Unmarshal (env\<lparr>jsonDecode := j\<rparr>) r d = Unmarshal env r d)
   \<and> (Header r ''Content-Type'' = Some (''application/json; charset=utf-8'' # others) \<longrightarrow>
        \<not> out_bodyRead (Unmarshal env r d))"
proof -
  have a: "out_bodyRead (Unmarshal env r d)
             = (Header_Get (Header r) ''Content-Type'' = ''application/json'')"
    by (simp add: Unmarshal_def walk_bodyRead split: prod.splits option.splits)
  have b: "Header_Get (Header r) ''Content-Type'' \<noteq> ''application/json'' \<longrightarrow>
        Unmarshal env r d = walk env r d False
        \<and> Unmarshal (env\<lparr>jsonDecode := j\<rparr>) r d = Unmarshal env r d"
    by (simp add: Unmarshal_def walk_env_jsonDecode)
  have c: "Header r ''Content-Type'' = Some (''application/json; charset=utf-8'' # others) \<longrightarrow>
        Header_Get (Header r) ''Content-Type'' \<noteq> ''application/json''"
    by (simp add: Header_Get_def canonical_Content_Type)
  have d: "Header_Get (Header r) ''Content-Type'' = ''application/json'' \<longrightarrow>
        Unmarshal env r d =
          (case jsonDecode env (Body r) d of
             (Some e, d') \<Rightarrow> \<lparr>out_err = Some (BodyDecodeError e), out_dest = d', out_bodyRead = True\<rparr>
           | (None, d') \<Rightarrow> walk env r d' True)"
    by (simp add: Unmarshal_def)
  from a b c d show ?thesis by (simp add: walk_bodyRead)
qed

theorem Unmarshal_json_gate_witness:
  "Header_Get (Header (emptyRequest\<lparr>Header := [''Content-Type'' \<mapsto> [''application/json'']]\<rparr>))
      ''Content-Type'' = ''application/json''
   \<and> out_bodyRead (Unmarshal defaultEnv
        (emptyRequest\<lparr>Header := [''Content-Type'' \<mapsto> [''application/json'']]\<rparr>)
        (Some (VRef (VStruct []))))
   \<and> Header_Get (Header (emptyRequest\<lparr>Header :=
        [''Content-Type'' \<mapsto> [''application/json; charset=utf-8'']]\<rparr>)) ''Content-Type''
       = ''application/json; charset=utf-8''
   \<and> \<not> out_bodyRead (Unmarshal defaultEnv
        (emptyRequest\<lparr>Header := [''Content-Type'' \<mapsto> [''application/json; charset=utf-8'']]\<rparr>)
        (Some (VRef (VStruct []))))"
proof -
  have h1: "Header_Get (Header (emptyRequest\<lparr>Header := [''Content-Type'' \<mapsto> [''application/json'']]\<rparr>))
      ''Content-Type'' = ''application/json''"
    by (simp add: Header_Get_def canonical_Content_Type)
  have h2: "Header_Get (Header (emptyRequest\<lparr>Header :=
        [''Content-Type'' \<mapsto> [''application/json; charset=utf-8'']]\<rparr>)) ''Content-Type''
       = ''application/json; charset=utf-8''"
    by (simp add: Header_Get_def canonical_Content_Type)
  from h1 h2
    Unmarshal_json_gate [of defaultEnv
      "emptyRequest\<lparr>Header := [''Content-Type'' \<mapsto> [''application/json'']]\<rparr>"
      "Some (VRef (VStruct []))"]
    Unmarshal_json_gate [of defaultEnv
      "emptyRequest\<lparr>Header := [''Content-Type'' \<mapsto> [''application/json; charset=utf-8'']]\<rparr>"
      "Some (VRef (VStruct []))"]
  show ?thesis by (simp add: walk_bodyRead defaultEnv_def)
qed

section \<open>Failures of the walk\<close>

text \<open>
  Claim C6 as stated fails in four ways.  When the resolver reports absence the shape is
  never looked at: a member of slice type annotated \<open>query:"tags"\<close>, decoded from a request
  without that parameter, is skipped and \<open>Unmarshal\<close> returns nil.  Coercion follows every
  pointer, not one: a pointer to a pointer to a string is assigned.  A nil pointer to a
  slice in an unexported member makes the walk panic when it allocates the pointer, before
  the shape is looked at.  And the walk may stop earlier with another error: after an
  \<open>int\<close> member fed \<open>abc\<close>, the slice member is never reached.
\<close>

theorem unsupported_member_skipped_counterexample:
  "(findInTag tagsField = (''tags'', tagTypeQuery, True)
    \<and> \<not> supportedKind (kindOf (Content tagsField))
    \<and> Unmarshal defaultEnv emptyRequest (Some (VRef (VStruct [tagsField])))
       = \<lparr>out_err = None, out_dest = Some (VRef (VStruct [tagsField])), out_bodyRead = False\<rparr>)
   \<and> Unmarshal defaultEnv tagsRequest
        (Some (VRef (VStruct [deepStringField (VNil (TPtr TString))])))
       = \<lparr>out_err = None,
          out_dest = Some (VRef (VStruct [deepStringField (VRef (VRef (VString ''a'')))])),
          out_bodyRead = False\<rparr>
   \<and> (\<not> supportedKind (elemKind (Content hiddenTagsField))
    \<and> out_err (Unmarshal defaultEnv tagsRequest (Some (VRef (VStruct [hiddenTagsField]))))
       = Some roPanic)
   \<and> out_err (Unmarshal defaultEnv mixedRequest
        (Some (VRef (VStruct [intMember ''B'' ''b'' 0, tagsField]))))
       = Some (InvalidNumber ''ParseInt'' ''abc'' ErrSyntax)"
  by code_simp

text \<open>
  Claim C6, as amended.  A member that is annotated, is not itself a struct, and whose
  kind, all its pointers followed, is none of string, signed integer, unsigned integer,
  float, boolean: when the walk reaches it without an earlier error and its resolver
  reports a value (as the header resolver always does), the walk fails with
  \<open>unsupported type\<close> of that kind, and so does \<open>Unmarshal\<close> when the member is one of the
  destination's own; this holds whether or not the member can be set, with one exception:
  a nil pointer on the way, in a member that reflection has marked read-only, makes the
  walk panic instead.  When the resolver reports absence, the member is skipped and the
  walk goes on.
\<close>

theorem unsupported_member_fails:
  "(decodeFields env inp0 fl before fullName = (None, inp, before')
      \<and> findInTag f = (tg, tt, True) \<and> kindOf (Content f) \<noteq> KStruct
      \<and> \<not> supportedKind (elemKind (Content f))
      \<and> (flagRO (Field_flag fl f) \<longrightarrow> \<not> pointsToNil (Content f))
      \<and> getValue env inp (fullName @ tg) tt = (inp1, val, True) \<longrightarrow>
      fst (decodeFields env inp0 fl (before @ f # rest) fullName)
        = Some (UnsupportedType (elemKind (Content f))))
   \<and> (decodeFields env inp0 fl before fullName = (None, inp, before')
      \<and> findInTag f = (tg, tagTypeHeader, True) \<and> kindOf (Content f) \<noteq> KStruct
      \<and> \<not> supportedKind (elemKind (Content f))
      \<and> (flagRO (Field_flag fl f) \<longrightarrow> \<not> pointsToNil (Content f)) \<longrightarrow>
      fst (decodeFields env inp0 fl (before @ f # rest) fullName)
        = Some (UnsupportedType (elemKind (Content f))))
   \<and> (walkInput env r d = Some (VRef (VStruct (before @ f # rest)))
      \<and> (Header_Get (Header r) ''Content-Type'' \<noteq> ''application/json''
           \<or> fst (jsonDecode env (Body r) d) = None)
      \<and> decodeFields env (newDecodeIn r) noRO before [] = (None, inp, before')
      \<and> findInTag f = (tg, tt, True) \<and> kindOf (Content f) \<noteq> KStruct
      \<and> \<not> supportedKind (elemKind (Content f))
      \<and> (flagRO (Field_flag noRO f) \<longrightarrow> \<not> pointsToNil (Content f))
      \<and> getValue env inp tg tt = (inp1, val, True) \<longrightarrow>
      out_err (Unmarshal env r d) = Some (UnsupportedType (elemKind (Content f))))
   \<and> (findInTag f = (tg, tt, True) \<and> kindOf (Content f) \<noteq> KStruct
      \<and> getValue env inp (fullName @ tg) tt = (inp1, val, False) \<longrightarrow>
      decodeFields env inp fl (f # rest) fullName =
        (case decodeFields env inp1 fl rest fullName of
           (e, inp', rest') \<Rightarrow> (e, inp', f # rest')))
   \<and> (findInTag f = (tg, tt, True) \<and> kindOf (Content f) \<noteq> KStruct
      \<and> flagRO (Field_flag fl f) \<and> pointsToNil (Content f)
      \<and> getValue env inp (fullName @ tg) tt = (inp1, val, True) \<longrightarrow>
      fst (decodeFields env inp fl (f # rest) fullName) = Some roPanic)"
proof -
  have head: "fst (decodeFields env inp fl (f # rest) fullName)
        = Some (UnsupportedType (elemKind (Content f)))"
    if "findInTag f = (tg, tt, True)" "kindOf (Content f) \<noteq> KStruct"
      "\<not> supportedKind (elemKind (Content f))"
      "flagRO (Field_flag fl f) \<longrightarrow> \<not> pointsToNil (Content f)"
      "getValue env inp (fullName @ tg) tt = (inp1, val, True)" for tt inp1 val fl fullName
    using that setField_unsupported [of "Content f" "flagRO (Field_flag fl f)" env val]
    by (auto simp add: decodeFields_Cons split: prod.splits option.splits)
  have hdr: "getValue env inp (fullName @ tg) tagTypeHeader
      = (inp, Header_Get (Header (in_r inp)) (fullName @ tg), True)"
    by (simp add: getValue_def)
  have pre: "fst (decodeFields env inp0 fl (before @ f # rest) fullName)
        = fst (decodeFields env inp fl (f # rest) fullName)"
    if "decodeFields env inp0 fl before fullName = (None, inp, before')" for inp0 fl fullName
    using that by (simp add: decodeFields_append case_prod_beta)
  have c1: "decodeFields env inp0 fl before fullName = (None, inp, before')
      \<and> findInTag f = (tg, tt, True) \<and> kindOf (Content f) \<noteq> KStruct
      \<and> \<not> supportedKind (elemKind (Content f))
      \<and> (flagRO (Field_flag fl f) \<longrightarrow> \<not> pointsToNil (Content f))
      \<and> getValue env inp (fullName @ tg) tt = (inp1, val, True) \<longrightarrow>
      fst (decodeFields env inp0 fl (before @ f # rest) fullName)
        = Some (UnsupportedType (elemKind (Content f)))"
    using head [of tt fl fullName inp1 val] pre [of inp0 fl fullName] by metis
  have c2: "decodeFields env inp0 fl before fullName = (None, inp, before')
      \<and> findInTag f = (tg, tagTypeHeader, True) \<and> kindOf (Content f) \<noteq> KStruct
      \<and> \<not> supportedKind (elemKind (Content f))
      \<and> (flagRO (Field_flag fl f) \<longrightarrow> \<not> pointsToNil (Content f)) \<longrightarrow>
      fst (decodeFields env inp0 fl (before @ f # rest) fullName)
        = Some (UnsupportedType (elemKind (Content f)))"
    using head [OF _ _ _ _ hdr] pre [of inp0 fl fullName] by metis
  have c3: "walkInput env r d = Some (VRef (VStruct (before @ f # rest)))
      \<and> (Header_Get (Header r) ''Content-Type'' \<noteq> ''application/json''
           \<or> fst (jsonDecode env (Body r) d) = None)
      \<and> decodeFields env (newDecodeIn r) noRO before [] = (None, inp, before')
      \<and> findInTag f = (tg, tt, True) \<and> kindOf (Content f) \<noteq> KStruct
      \<and> \<not> supportedKind (elemKind (Content f))
      \<and> (flagRO (Field_flag noRO f) \<longrightarrow> \<not> pointsToNil (Content f))
      \<and> getValue env inp tg tt = (inp1, val, True) \<longrightarrow>
      out_err (Unmarshal env r d) = Some (UnsupportedType (elemKind (Content f)))"
  proof (intro impI, elim conjE)
    assume w: "walkInput env r d = Some (VRef (VStruct (before @ f # rest)))"
      and j: "Header_Get (Header r) ''Content-Type'' \<noteq> ''application/json''
           \<or> fst (jsonDecode env (Body r) d) = None"
      and b: "decodeFields env (newDecodeIn r) noRO before [] = (None, inp, before')"
      and h: "findInTag f = (tg, tt, True)" "kindOf (Content f) \<noteq> KStruct"
        "\<not> supportedKind (elemKind (Content f))"
        "flagRO (Field_flag noRO f) \<longrightarrow> \<not> pointsToNil (Content f)"
      and g: "getValue env inp tg tt = (inp1, val, True)"
    from g have g': "getValue env inp ([] @ tg) tt = (inp1, val, True)" by simp
    from head [OF h g'] pre [OF b]
    have "fst (decodeFields env (newDecodeIn r) noRO (before @ f # rest) [])
        = Some (UnsupportedType (elemKind (Content f)))" by simp
    with Unmarshal_walkInput [OF j, of False] w show
      "out_err (Unmarshal env r d) = Some (UnsupportedType (elemKind (Content f)))"
      by (simp add: walk_struct)
  qed
  have c4: "findInTag f = (tg, tt, True) \<and> kindOf (Content f) \<noteq> KStruct
      \<and> getValue env inp (fullName @ tg) tt = (inp1, val, False) \<longrightarrow>
      decodeFields env inp fl (f # rest) fullName =
        (case decodeFields env inp1 fl rest fullName of
           (e, inp', rest') \<Rightarrow> (e, inp', f # rest'))"
    by (simp add: decodeFields_Cons)
  have c5: "findInTag f = (tg, tt, True) \<and> kindOf (Content f) \<noteq> KStruct
      \<and> flagRO (Field_flag fl f) \<and> pointsToNil (Content f)
      \<and> getValue env inp (fullName @ tg) tt = (inp1, val, True) \<longrightarrow>
      fst (decodeFields env inp fl (f # rest) fullName) = Some roPanic"
    using setField_nil_ro [of "Content f" env val]
    by (auto simp add: decodeFields_Cons split: prod.splits option.splits)
  from c1 c2 c3 c4 c5 show ?thesis by blast
qed


theorem unsupported_member_fails_witness:
  "findInTag tagsField = (''tags'', tagTypeQuery, True)
   \<and> elemKind (Content tagsField) = KSlice
   \<and> getValue defaultEnv (newDecodeIn tagsRequest) ''tags'' tagTypeQuery
       = ((newDecodeIn tagsRequest)\<lparr>in_queryVals := Some (URL_Query tagsRequest)\<rparr>, ''a'', True)
   \<and> fst (decodeFields defaultEnv (newDecodeIn tagsRequest) noRO [tagsField] [])
       = Some (UnsupportedType KSlice)
   \<and> out_err (Unmarshal defaultEnv tagsRequest (Some (VRef (VStruct [tagsField]))))
       = Some (UnsupportedType KSlice)
   \<and> flagRO (Field_flag noRO hiddenSliceField)
   \<and> fst (decodeFields defaultEnv (newDecodeIn tagsRequest) noRO [hiddenSliceField] [])
       = Some (UnsupportedType KSlice)
   \<and> pointsToNil (Content hiddenTagsField)
   \<and> fst (decodeFields defaultEnv (newDecodeIn tagsRequest) noRO [hiddenTagsField] [])
       = Some roPanic"
proof -
  let ?inp = "newDecodeIn tagsRequest"
  let ?inp1 = "(newDecodeIn tagsRequest)\<lparr>in_queryVals := Some (URL_Query tagsRequest)\<rparr>"
  have t: "findInTag tagsField = (''tags'', tagTypeQuery, True)" by code_simp
  have k: "kindOf (Content tagsField) \<noteq> KStruct" by code_simp
  have e: "elemKind (Content tagsField) = KSlice" by code_simp
  have u: "\<not> supportedKind (elemKind (Content tagsField))" by code_simp
  have p: "\<not> flagRO (Field_flag noRO tagsField)" by code_simp
  have g: "getValue defaultEnv ?inp ''tags'' tagTypeQuery = (?inp1, ''a'', True)"
    by (simp add: getValue_def newDecodeIn_def tagsRequest_def)
  have b: "decodeFields defaultEnv ?inp noRO [] [] = (None, ?inp, [])" by simp
  have w: "walkInput defaultEnv tagsRequest (Some (VRef (VStruct [tagsField])))
      = Some (VRef (VStruct ([] @ tagsField # [])))"
    by (simp add: walkInput_def Header_Get_def tagsRequest_def emptyRequest_def)
  have j: "Header_Get (Header tagsRequest) ''Content-Type'' \<noteq> ''application/json''"
    by (simp add: Header_Get_def tagsRequest_def emptyRequest_def)
  have th: "findInTag hiddenSliceField = (''tags'', tagTypeQuery, True)" by code_simp
  have kh: "kindOf (Content hiddenSliceField) \<noteq> KStruct" by code_simp
  have eh: "elemKind (Content hiddenSliceField) = KSlice" by code_simp
  have uh: "\<not> supportedKind (elemKind (Content hiddenSliceField))" by code_simp
  have rh: "flagRO (Field_flag noRO hiddenSliceField)" by code_simp
  have nh: "\<not> pointsToNil (Content hiddenSliceField)" by code_simp
  have tn: "findInTag hiddenTagsField = (''tags'', tagTypeQuery, True)" by code_simp
  have kn: "kindOf (Content hiddenTagsField) \<noteq> KStruct" by code_simp
  have rn: "flagRO (Field_flag noRO hiddenTagsField)" by code_simp
  have pn: "pointsToNil (Content hiddenTagsField)" by code_simp
  note inst = unsupported_member_fails [where env = defaultEnv and ?inp0.0 = ?inp
      and fl = noRO and before = "[]" and fullName = "[]" and inp = ?inp and before' = "[]"
      and tg = "''tags''" and tt = tagTypeQuery and ?inp1.0 = ?inp1 and val = "''a''"
      and rest = "[]" and r = tagsRequest, unfolded append_Nil]
  from t k e u p g b w j
    inst [where f = tagsField and d = "Some (VRef (VStruct [tagsField]))"]
  have first: "fst (decodeFields defaultEnv ?inp noRO [tagsField] [])
       = Some (UnsupportedType KSlice)
     \<and> out_err (Unmarshal defaultEnv tagsRequest (Some (VRef (VStruct [tagsField]))))
       = Some (UnsupportedType KSlice)"
    by simp
  from th kh eh uh nh g b
    inst [where f = hiddenSliceField and d = "Some (VRef (VStruct [hiddenSliceField]))"]
  have second: "fst (decodeFields defaultEnv ?inp noRO [hiddenSliceField] [])
       = Some (UnsupportedType KSlice)"
    by simp
  from tn kn rn pn g
    inst [where f = hiddenTagsField and d = "Some (VRef (VStruct [hiddenTagsField]))"]
  have third: "fst (decodeFields defaultEnv ?inp noRO [hiddenTagsField] []) = Some roPanic"
    by simp
  from t e g first rh second pn third show ?thesis by simp
qed

text \<open>
  Claim C4.  The first error ends the walk and is what \<open>Unmarshal\<close> returns, and
  nothing is rolled back: when coercion fails on a member, or the walk of a nested struct
  fails, the loop returns that error at once, with the members after it as they were and
  the decode context as it was at the failure; the members before it keep what the walk
  wrote into them; the error goes up through the enclosing struct to \<open>Unmarshal\<close>.  With
  two \<open>int\<close> members fed by query parameters \<open>12\<close> and \<open>abc\<close>, \<open>Unmarshal\<close> returns the
  number error of \<open>abc\<close> and the first member holds 12.
\<close>

theorem first_error_aborts:
  "(findInTag f = (tg, tt, True) \<and> kindOf (Content f) \<noteq> KStruct
      \<and> getValue env inp (fullName @ tg) tt = (inp1, val, True)
      \<and> setField env (flagRO (Field_flag fl f)) (Content f) val = (Some e, v1) \<longrightarrow>
      decodeFields env inp fl (f # rest) fullName
        = (Some e, inp1, map_structField (\<lambda>_. v1) f # rest))
   \<and> (findInTag f = (tg, tt, True) \<and> kindOf (Content f) = KStruct
      \<and> decode env inp (Field_flag fl f) (Content f) (fullName @ tg @ [delimiter])
          = (Some e, inp1, v1) \<longrightarrow>
      decodeFields env inp fl (f # rest) fullName
        = (Some e, inp1, map_structField (\<lambda>_. v1) f # rest))
   \<and> (decodeFields env inp fl before fullName = (None, inp1, before')
      \<and> decodeFields env inp1 fl after fullName = (Some e, inp2, after') \<longrightarrow>
      decodeFields env inp fl (before @ after) fullName = (Some e, inp2, before' @ after'))
   \<and> (decodeFields env inp fl fs fullName = (Some e, inp1, fs') \<longrightarrow>
      decode env inp fl (VStruct fs) fullName = (Some e, inp1, VStruct fs'))
   \<and> (Header_Get (Header r) ''Content-Type'' \<noteq> ''application/json''
      \<and> decode env (newDecodeIn r) noRO v [] = (Some e, inp1, v') \<longrightarrow>
      Unmarshal env r (Some (VRef v))
        = \<lparr>out_err = Some e, out_dest = Some (VRef v'), out_bodyRead = False\<rparr>)
   \<and> (Header_Get (Header r) ''Content-Type'' = ''application/json''
      \<and> jsonDecode env (Body r) d = (None, Some (VRef v))
      \<and> decode env (newDecodeIn r) noRO v [] = (Some e, inp1, v') \<longrightarrow>
      Unmarshal env r d
        = \<lparr>out_err = Some e, out_dest = Some (VRef v'), out_bodyRead = True\<rparr>)"
  by (simp add: decodeFields_Cons decodeFields_append Unmarshal_def walk_def)

theorem first_error_aborts_witness:
  "Unmarshal defaultEnv pairRequest (Some (VRef (VStruct pairOfInts)))
     = \<lparr>out_err = Some (InvalidNumber ''ParseInt'' ''abc'' ErrSyntax),
        out_dest = Some (VRef (VStruct [intMember ''A'' ''a'' 12, intMember ''B'' ''b'' 0])),
        out_bodyRead = False\<rparr>"
proof -
  let ?inp0 = "newDecodeIn pairRequest"
  let ?inp1 = "(newDecodeIn pairRequest)\<lparr>in_queryVals := Some (URL_Query pairRequest)\<rparr>"
  let ?e = "InvalidNumber ''ParseInt'' ''abc'' ErrSyntax"
  have pa: "ParseInt ''12'' = (12, None)" by code_simp
  have pb: "ParseInt ''abc'' = (0, Some ErrSyntax)" by code_simp
  have ta: "findInTag (intMember ''A'' ''a'' 0) = (''a'', tagTypeQuery, True)" by code_simp
  have tb: "findInTag (intMember ''B'' ''b'' 0) = (''b'', tagTypeQuery, True)" by code_simp
  have st: "signed_take_bit 63 (12 :: int) = 12" by code_simp
  have a: "decodeFields defaultEnv ?inp0 noRO [intMember ''A'' ''a'' 0] []
             = (None, ?inp1, [intMember ''A'' ''a'' 12])"
    by (simp add: decodeFields_Cons ta pa st)
       (simp add: intMember_def getValue_def newDecodeIn_def pairRequest_def pa st
          Field_flag_def flagRO_def noRO_def)
  have b: "decodeFields defaultEnv ?inp1 noRO [intMember ''B'' ''b'' 0] []
             = (Some ?e, ?inp1, [intMember ''B'' ''b'' 0])"
    by (simp add: decodeFields_Cons tb pb)
       (simp add: intMember_def getValue_def newDecodeIn_def pairRequest_def pb
          Field_flag_def flagRO_def noRO_def)
  have ab: "decodeFields defaultEnv ?inp0 noRO pairOfInts []
             = (Some ?e, ?inp1, [intMember ''A'' ''a'' 12, intMember ''B'' ''b'' 0])"
    using a b
      first_error_aborts [where env = defaultEnv and inp = ?inp0 and fl = noRO
        and before = "[intMember ''A'' ''a'' 0]" and fullName = "[]" and ?inp1.0 = ?inp1
        and before' = "[intMember ''A'' ''a'' 12]" and after = "[intMember ''B'' ''b'' 0]"
        and e = ?e and ?inp2.0 = ?inp1 and after' = "[intMember ''B'' ''b'' 0]"]
    by (simp add: pairOfInts_def)
  have s: "decode defaultEnv ?inp0 noRO (VStruct pairOfInts) []
             = (Some ?e, ?inp1, VStruct [intMember ''A'' ''a'' 12, intMember ''B'' ''b'' 0])"
    using ab by simp
  have h: "Header_Get (Header pairRequest) ''Content-Type'' \<noteq> ''application/json''"
    by (simp add: Header_Get_def pairRequest_def emptyRequest_def)
  from h s
    first_error_aborts [where env = defaultEnv and r = pairRequest and v = "VStruct pairOfInts"
      and e = ?e and ?inp1.0 = ?inp1
      and v' = "VStruct [intMember ''A'' ''a'' 12, intMember ''B'' ''b'' 0]"]
  show ?thesis by simp
qed

section \<open>The name path\<close>

text \<open>
  Claim C8.  Popping what was pushed gives the name path back, and the walker with its
  byte buffer is the walker that carries the stack of open segments: at every resolution
  the name path is the segments of the records the walk is in, each followed by the
  delimiter, and a member after a nested record is resolved with the stack as it was
  before the record.  So the members \<open>first\<close> and \<open>last\<close> of a record annotated \<open>name\<close> are
  read from the query keys \<open>name.first\<close> and \<open>name.last\<close>, whatever else the query holds.
\<close>

theorem name_path_mirrors_stack:
  "popWithDelimiter (appendWithDelimiter prefix name) name = Some prefix
   \<and> decode env inp fl v (joinPath stack) = stackDecode env inp fl v stack
   \<and> decodeFields env inp fl fs (joinPath stack) = stackFields env inp fl fs stack
   \<and> (URL_Query r ''name.first'' = Some (x # xs) \<and> URL_Query r ''name.last'' = Some (y # ys)
       \<and> Header_Get (Header r) ''Content-Type'' \<noteq> ''application/json'' \<longrightarrow>
       Unmarshal env r (Some (VRef (nameRecord a b)))
         = \<lparr>out_err = None, out_dest = Some (VRef (nameRecord x y)), out_bodyRead = False\<rparr>)"
  by (simp add: popWithDelimiter_append decode_stackDecode Unmarshal_def walk_def
        nameRecord_decode)

theorem name_path_mirrors_stack_witness:
  "URL_Query nameRequest ''name.first'' = Some [''John'']
   \<and> URL_Query nameRequest ''name.last'' = Some [''Doe'']
   \<and> Unmarshal defaultEnv nameRequest (Some (VRef (nameRecord [] [])))
       = \<lparr>out_err = None, out_dest = Some (VRef (nameRecord ''John'' ''Doe'')),
          out_bodyRead = False\<rparr>"
proof -
  have f: "URL_Query nameRequest ''name.first'' = Some [''John'']"
    by (simp add: nameRequest_def)
  have l: "URL_Query nameRequest ''name.last'' = Some [''Doe'']"
    by (simp add: nameRequest_def)
  have h: "Header_Get (Header nameRequest) ''Content-Type'' \<noteq> ''application/json''"
    by (simp add: Header_Get_def nameRequest_def emptyRequest_def)
  from f l h
    name_path_mirrors_stack [where r = nameRequest and x = "''John''" and xs = "[]"
      and y = "''Doe''" and ys = "[]" and env = defaultEnv and a = "[]" and b = "[]"]
  show ?thesis by simp
qed

section \<open>The round trip over query names\<close>

text \<open>
  Claim C9 as stated fails for members that are not strings, because coercion forgets
  the raw value: the query values \<open>yes\<close> and \<open>no\<close> leave a boolean member with the same
  \<open>false\<close>, and \<open>007\<close> and \<open>7\<close> leave an \<open>int\<close> member with the same 7, so nothing derived
  from the destination gives the original value back.  And decoding need not succeed:
  the query value \<open>abc\<close> for an \<open>int\<close> member is a key that matches its path, and
  \<open>Unmarshal\<close> returns the error of \<open>ParseInt\<close>.
\<close>

theorem round_trip_counterexample:
  "Unmarshal defaultEnv (oneParamRequest ''flag'' ''yes'') (Some (VRef (VStruct (flagMembers True))))
     = \<lparr>out_err = None, out_dest = Some (VRef (VStruct (flagMembers False))),
        out_bodyRead = False\<rparr>
   \<and> Unmarshal defaultEnv (oneParamRequest ''flag'' ''no'') (Some (VRef (VStruct (flagMembers True))))
     = \<lparr>out_err = None, out_dest = Some (VRef (VStruct (flagMembers False))),
        out_bodyRead = False\<rparr>
   \<and> Unmarshal defaultEnv (oneParamRequest ''a'' ''007'') (Some (VRef (VStruct [intMember ''A'' ''a'' 0])))
     = \<lparr>out_err = None, out_dest = Some (VRef (VStruct [intMember ''A'' ''a'' 7])),
        out_bodyRead = False\<rparr>
   \<and> Unmarshal defaultEnv (oneParamRequest ''a'' ''7'') (Some (VRef (VStruct [intMember ''A'' ''a'' 0])))
     = \<lparr>out_err = None, out_dest = Some (VRef (VStruct [intMember ''A'' ''a'' 7])),
        out_bodyRead = False\<rparr>
   \<and> Unmarshal defaultEnv (oneParamRequest ''a'' ''abc'') (Some (VRef (VStruct [intMember ''A'' ''a'' 0])))
     = \<lparr>out_err = Some (InvalidNumber ''ParseInt'' ''abc'' ErrSyntax),
        out_dest = Some (VRef (VStruct [intMember ''A'' ''a'' 0])), out_bodyRead = False\<rparr>"
  by code_simp

text \<open>
  Claim C9, as amended.  Whatever the members of the destination are: when \<open>Unmarshal\<close>
  returns no error, reading the dotted paths of the query-annotated members back from the
  destination gives, path by path and in the walker's order, the coercion of the first
  query value of the path into the member as it was (and the member as it was for a path
  without a value).  For a member that is a string once its pointers are followed, that
  is the original query value itself.  For a boolean member it is whether the original
  value is \<open>true\<close>; for an integer member the number the original value parses to, cut to
  the member's width; for a float member the parsed number, rounded for \<open>float32\<close>.  Two
  raw values other than \<open>true\<close> give the same boolean, and two raw values that parse to the
  same number give the same integer, so the original is not determined by the
  destination.  \<open>Unmarshal\<close> returns no error whenever every annotated scalar member can be
  set and is a string once its pointers are followed, and the JSON step, if taken, has
  not failed.
\<close>

theorem query_values_round_trip:
  "(walkInput env r d = Some (VRef (VStruct fs)) \<and> out_err (Unmarshal env r d) = None \<longrightarrow>
      (\<exists>fs'. out_dest (Unmarshal env r d) = Some (VRef (VStruct fs'))
          \<and> queryValues fs' [] = map (coerced env (URL_Query r)) (queryValues fs [])))
   \<and> (firstValue q key = Some raw \<and> elemKind v = KString \<longrightarrow>
        stringOf (snd (coerced env q (key, v))) = Some raw)
   \<and> (firstValue q key = Some raw \<longrightarrow>
        coerced env q (key, VBool b) = (key, VBool (raw = ''true'')))
   \<and> (firstValue q key = Some raw \<and> ParseInt raw = (n, None) \<longrightarrow>
        coerced env q (key, VInt k i) = (key, VInt k (signed_take_bit (intBits k - 1) n)))
   \<and> (firstValue q key = Some raw \<and> ParseUint raw = (n, None) \<longrightarrow>
        coerced env q (key, VUint ku u) = (key, VUint ku (take_bit (uintBits ku) n)))
   \<and> (firstValue q key = Some raw \<and> ParseFloat env raw = (y, None) \<longrightarrow>
        coerced env q (key, VFloat kf x)
          = (key, VFloat kf (case kf of F32 \<Rightarrow> toFloat32 env y | F64 \<Rightarrow> y)))
   \<and> (firstValue q key = None \<longrightarrow> coerced env q (key, v) = (key, v))
   \<and> (firstValue q key = Some raw \<and> firstValue q' key = Some raw'
        \<and> raw \<noteq> ''true'' \<and> raw' \<noteq> ''true'' \<longrightarrow>
        coerced env q (key, VBool b) = coerced env q' (key, VBool b))
   \<and> (firstValue q key = Some raw \<and> firstValue q' key = Some raw'
        \<and> ParseInt raw = (n, None) \<and> ParseInt raw' = (n, None) \<longrightarrow>
        coerced env q (key, VInt k i) = coerced env q' (key, VInt k i))
   \<and> (walkInput env r d = Some (VRef (VStruct fs)) \<and> stringsOnly noRO fs
        \<and> (Header_Get (Header r) ''Content-Type'' \<noteq> ''application/json''
             \<or> fst (jsonDecode env (Body r) d) = None) \<longrightarrow>
        out_err (Unmarshal env r d) = None)"
proof -
  have c1: "walkInput env r d = Some (VRef (VStruct fs)) \<and> out_err (Unmarshal env r d) = None \<longrightarrow>
      (\<exists>fs'. out_dest (Unmarshal env r d) = Some (VRef (VStruct fs'))
          \<and> queryValues fs' [] = map (coerced env (URL_Query r)) (queryValues fs []))"
  proof (intro impI, elim conjE)
    assume w: "walkInput env r d = Some (VRef (VStruct fs))"
      and ok: "out_err (Unmarshal env r d) = None"
    obtain e inp' fs' where run: "decodeFields env (newDecodeIn r) noRO fs [] = (e, inp', fs')"
      by (cases "decodeFields env (newDecodeIn r) noRO fs []") auto
    from Unmarshal_walkInput [OF Unmarshal_no_error [OF ok], of False] w ok run
    have e: "e = None" and dest: "out_dest (Unmarshal env r d) = Some (VRef (VStruct fs'))"
      by (simp_all add: walk_struct)
    from decode_values(2) [rule_format, OF cacheOK_new(1) run [unfolded e]]
    have "queryValues fs' [] = map (coerced env (URL_Query r)) (queryValues fs [])"
      by (simp add: cacheOK_new(2))
    with dest show "\<exists>fs'. out_dest (Unmarshal env r d) = Some (VRef (VStruct fs'))
          \<and> queryValues fs' [] = map (coerced env (URL_Query r)) (queryValues fs [])"
      by blast
  qed
  have c2: "firstValue q key = Some raw \<and> elemKind v = KString \<longrightarrow>
        stringOf (snd (coerced env q (key, v))) = Some raw"
    using string_setField [of v env raw] by (auto simp add: coerced_present)
  have c3: "firstValue q key = Some raw \<longrightarrow>
        coerced env q (key, VBool b) = (key, VBool (raw = ''true''))" for q raw
    by (simp add: coerced_def)
  have c4: "firstValue q key = Some raw \<and> ParseInt raw = (n, None) \<longrightarrow>
        coerced env q (key, VInt k i) = (key, VInt k (signed_take_bit (intBits k - 1) n))"
    for q raw
    by (simp add: coerced_def)
  have c5: "firstValue q key = Some raw \<and> ParseUint raw = (n, None) \<longrightarrow>
        coerced env q (key, VUint ku u) = (key, VUint ku (take_bit (uintBits ku) n))"
    by (simp add: coerced_def)
  have c6: "firstValue q key = Some raw \<and> ParseFloat env raw = (y, None) \<longrightarrow>
        coerced env q (key, VFloat kf x)
          = (key, VFloat kf (case kf of F32 \<Rightarrow> toFloat32 env y | F64 \<Rightarrow> y))"
    by (simp add: coerced_def)
  have c7: "firstValue q key = None \<longrightarrow> coerced env q (key, v) = (key, v)"
    by (simp add: coerced_absent)
  have c8: "firstValue q key = Some raw \<and> firstValue q' key = Some raw'
        \<and> raw \<noteq> ''true'' \<and> raw' \<noteq> ''true'' \<longrightarrow>
        coerced env q (key, VBool b) = coerced env q' (key, VBool b)"
    using c3 [of q raw] c3 [of q' raw'] by simp
  have c9: "firstValue q key = Some raw \<and> firstValue q' key = Some raw'
        \<and> ParseInt raw = (n, None) \<and> ParseInt raw' = (n, None) \<longrightarrow>
        coerced env q (key, VInt k i) = coerced env q' (key, VInt k i)"
    using c4 [of q raw] c4 [of q' raw'] by simp
  have c10: "walkInput env r d = Some (VRef (VStruct fs)) \<and> stringsOnly noRO fs
        \<and> (Header_Get (Header r) ''Content-Type'' \<noteq> ''application/json''
             \<or> fst (jsonDecode env (Body r) d) = None) \<longrightarrow>
        out_err (Unmarshal env r d) = None"
  proof (intro impI, elim conjE)
    assume w: "walkInput env r d = Some (VRef (VStruct fs))" and so: "stringsOnly noRO fs"
      and j: "Header_Get (Header r) ''Content-Type'' \<noteq> ''application/json''
             \<or> fst (jsonDecode env (Body r) d) = None"
    from decode_stringsOnly(2) [rule_format, OF so]
    have "fst (decodeFields env (newDecodeIn r) noRO fs []) = None" .
    with Unmarshal_walkInput [OF j, of False] w show "out_err (Unmarshal env r d) = None"
      by (simp add: walk_struct)
  qed
  from c1 c2 c3 [of q raw] c4 [of q raw] c5 c6 c7 c8 c9 c10 show ?thesis by blast
qed

theorem query_values_round_trip_witness:
  "walkInput defaultEnv testRequest (Some (VRef (VStruct testBefore)))
     = Some (VRef (VStruct testBefore))
   \<and> out_err (Unmarshal defaultEnv testRequest (Some (VRef (VStruct testBefore)))) = None
   \<and> queryValues testAfter []
       = map (coerced defaultEnv (URL_Query testRequest)) (queryValues testBefore [])
   \<and> queryValues testAfter []
       = [(''name.first'', VString ''John''), (''name.last'', VString ''Doe''),
          (''name.middle'', VRef (VString ''Middle'')), (''age'', VInt SInt 30),
          (''banned'', VBool True), (''income'', VUint UInt 100000)]
   \<and> firstValue (URL_Query testRequest) ''name.middle'' = Some ''Middle''
   \<and> stringOf (snd (coerced defaultEnv (URL_Query testRequest) (''name.middle'', VNil TString)))
       = Some ''Middle''
   \<and> stringsOnly noRO (embeddedName [] [])
   \<and> out_err (Unmarshal defaultEnv nameRequest (Some (VRef (VStruct (embeddedName [] []))))) = None"
proof -
  let ?d = "Some (VRef (VStruct testBefore))"
  let ?n = "Some (VRef (VStruct (embeddedName [] [])))"
  have w: "walkInput defaultEnv testRequest ?d = ?d"
    by (simp add: walkInput_def Header_Get_def testRequest_def emptyRequest_def)
  have ok: "out_err (Unmarshal defaultEnv testRequest ?d) = None"
    by (simp add: test_query_params_only)
  have after: "out_dest (Unmarshal defaultEnv testRequest ?d) = Some (VRef (VStruct testAfter))"
    by (simp add: test_query_params_only)
  have vals: "queryValues testAfter []
       = [(''name.first'', VString ''John''), (''name.last'', VString ''Doe''),
          (''name.middle'', VRef (VString ''Middle'')), (''age'', VInt SInt 30),
          (''banned'', VBool True), (''income'', VUint UInt 100000)]"
    by code_simp
  have fm: "firstValue (URL_Query testRequest) ''name.middle'' = Some ''Middle''"
    by (simp add: firstValue_def testRequest_def)
  have ks: "elemKind (VNil TString) = KString" by simp
  have wn: "walkInput defaultEnv nameRequest ?n = ?n"
    by (simp add: walkInput_def Header_Get_def nameRequest_def emptyRequest_def)
  have jn: "Header_Get (Header nameRequest) ''Content-Type'' \<noteq> ''application/json''"
    by (simp add: Header_Get_def nameRequest_def emptyRequest_def)
  have so: "stringsOnly noRO (embeddedName [] [])" by code_simp
  from w ok after
    query_values_round_trip [where env = defaultEnv and r = testRequest and d = ?d
      and fs = testBefore]
  have first: "queryValues testAfter []
       = map (coerced defaultEnv (URL_Query testRequest)) (queryValues testBefore [])"
    by auto
  from fm ks
    query_values_round_trip [where env = defaultEnv and q = "URL_Query testRequest"
      and key = "''name.middle''" and raw = "''Middle''" and v = "VNil TString"]
  have second:
    "stringOf (snd (coerced defaultEnv (URL_Query testRequest) (''name.middle'', VNil TString)))
       = Some ''Middle''"
    by blast
  from wn jn so
    query_values_round_trip [where env = defaultEnv and r = nameRequest and d = ?n
      and fs = "embeddedName [] []"]
  have third: "out_err (Unmarshal defaultEnv nameRequest ?n) = None"
    by blast
  from w ok first vals fm second so third show ?thesis by simp
qed

end
